theory Spec2Isabelle
  imports Main "HOL-Library.AList"
begin

section \<open>Values exchanged with the remote services\<close>

text \<open>
  Every payload handled by \<^verbatim>\<open>server.js\<close> is a value parsed from JSON.  An object is
  kept as the list of its own properties in the order in which \<^verbatim>\<open>for (key in obj)\<close>
  enumerates them (the keys of a real object are distinct; a lookup takes the first entry
  of a key); an array is the list of its elements.  A number is carried as an integer: the
  code only ever tests a number for being falsy.  A string is the list of its code units,
  so that \<open>length\<close> is \<^verbatim>\<open>.length\<close>.
\<close>

datatype json =
    JNull
  | JBool bool
  | JNum int
  | JStr string
  | JArr "json list"
  | JObj "(string \<times> json) list"

text \<open>JavaScript truthiness of a value, as used by \<^verbatim>\<open>if (x)\<close>, \<^verbatim>\<open>!x\<close> and \<^verbatim>\<open>a || b\<close>.\<close>

fun truthy :: "json \<Rightarrow> bool" where
  "truthy JNull = False"
| "truthy (JBool b) = b"
| "truthy (JNum n) = (n \<noteq> 0)"
| "truthy (JStr s) = (s \<noteq> [])"
| "truthy (JArr xs) = True"
| "truthy (JObj kvs) = True"

text \<open>
  \<^verbatim>\<open>obj.key\<close> for a value that is neither \<^verbatim>\<open>null\<close> nor \<^verbatim>\<open>undefined\<close>;
  \<open>None\<close> stands for \<^verbatim>\<open>undefined\<close>.  None of the property names read by the program
  exists on a string, number, boolean or array.
\<close>

fun field :: "json \<Rightarrow> string \<Rightarrow> json option" where
  "field (JObj kvs) k = map_of kvs k"
| "field v k = None"

text \<open>The value of \<^verbatim>\<open>obj.key\<close> when it is truthy.\<close>

definition truthyField :: "json \<Rightarrow> string \<Rightarrow> json option" where
  "truthyField obj k =
     (case field obj k of
        None \<Rightarrow> None
      | Some v \<Rightarrow> if truthy v then Some v else None)"

text \<open>\<^verbatim>\<open>typeof v === 'string'\<close>\<close>

fun isString :: "json \<Rightarrow> bool" where
  "isString (JStr s) = True"
| "isString v = False"

section \<open>Exceptions\<close>

text \<open>
  One constructor for each exception that can be raised inside
  \<^verbatim>\<open>parseDocumentWithLlamaParse\<close> and \<^verbatim>\<open>summarizeWithGemini\<close>:

  \<^item> \<open>AxiosError c\<close>: a rejected HTTP request; \<open>c\<close> is \<^verbatim>\<open>error.response?.status\<close>;
  \<^item> \<open>TypeError\<close>: a property read on \<^verbatim>\<open>null\<close>;
  \<^item> \<open>NoJobId d\<close>: \<^verbatim>\<open>'No job ID returned from LlamaParse. Response: ...'\<close> for the upload
    response \<open>d\<close>;
  \<^item> \<open>ParsingFailed m\<close>: \<^verbatim>\<open>`LlamaParse parsing failed: ${errorMsg}`\<close> with \<open>m\<close> the value of
    \<^verbatim>\<open>errorMsg\<close>;
  \<^item> \<open>JobNotFound\<close>: \<^verbatim>\<open>'LlamaParse job not found. The job may have expired.'\<close>;
  \<^item> \<open>TimedOut\<close>: \<^verbatim>\<open>'LlamaParse parsing timed out after 2 minutes'\<close>;
  \<^item> \<open>NoTextExtracted\<close>: \<^verbatim>\<open>'No text extracted from document'\<close>;
  \<^item> \<open>ModelError msg\<close>: the exception of a Gemini SDK call, with its message;
  \<^item> \<open>GeminiNoResponse\<close>: \<^verbatim>\<open>'Failed to get response from Gemini API'\<close>.
\<close>

datatype exn =
    AxiosError "nat option"
  | TypeError
  | NoJobId json
  | ParsingFailed json
  | JobNotFound
  | TimedOut
  | NoTextExtracted
  | ModelError string
  | GeminiNoResponse

section \<open>Extracting the text of a parsed document\<close>

text \<open>
  The last-resort search, \<^verbatim>\<open>findTextInObject\<close> (server.js, lines 319-329): the
  properties are visited in enumeration order; a string longer than 100 characters is
  returned at once, an object or array is searched before the next property is looked at.
  \<open>findTextInProps\<close> and \<open>findTextInItems\<close> are the \<^verbatim>\<open>for\<close> loop over the remaining
  properties of an object and the remaining elements of an array.
\<close>

fun findTextInObject :: "json \<Rightarrow> string option"
  and findTextInProps :: "(string \<times> json) list \<Rightarrow> string option"
  and findTextInItems :: "json list \<Rightarrow> string option"
  and findTextAt :: "json \<Rightarrow> string option"
where
  "findTextInObject (JObj kvs) = findTextInProps kvs"
| "findTextInObject (JArr xs) = findTextInItems xs"
| "findTextInObject JNull = None"
| "findTextInObject (JBool b) = None"
| "findTextInObject (JNum n) = None"
| "findTextInObject (JStr s) = None"
| "findTextInProps [] = None"
| "findTextInProps (kv # kvs) =
     (case findTextAt (snd kv) of
        Some s \<Rightarrow> Some s
      | None \<Rightarrow> findTextInProps kvs)"
| "findTextInItems [] = None"
| "findTextInItems (x # xs) =
     (case findTextAt x of
        Some s \<Rightarrow> Some s
      | None \<Rightarrow> findTextInItems xs)"
| "findTextAt (JStr s) = (if length s > 100 then Some s else None)"
| "findTextAt (JObj kvs) = findTextInProps kvs"
| "findTextAt (JArr xs) = findTextInItems xs"
| "findTextAt JNull = None"
| "findTextAt (JBool b) = None"
| "findTextAt (JNum n) = None"

text \<open>
  The one-level look into \<^verbatim>\<open>documentData.result\<close> (lines 290-298) and into
  \<^verbatim>\<open>documentData.data\<close> and \<^verbatim>\<open>documentData.document\<close> (lines 300-306 and 308-314).
  Where no branch assigns, \<^verbatim>\<open>parsedText\<close> keeps the value \<^verbatim>\<open>''\<close> it has whenever the
  extraction is reached: it is initialised to \<^verbatim>\<open>''\<close> and a truthy assignment leaves the
  loop.
\<close>

definition fromResult :: "json \<Rightarrow> json" where
  "fromResult r =
     (if isString r then r
      else (case truthyField r ''markdown'' of Some v \<Rightarrow> v | None \<Rightarrow>
           (case truthyField r ''text'' of Some v \<Rightarrow> v | None \<Rightarrow>
           (case truthyField r ''content'' of Some v \<Rightarrow> v | None \<Rightarrow>
            JStr []))))"

definition fromData :: "json \<Rightarrow> json" where
  "fromData r =
     (if isString r then r
      else (case truthyField r ''markdown'' of Some v \<Rightarrow> v | None \<Rightarrow>
           (case truthyField r ''text'' of Some v \<Rightarrow> v | None \<Rightarrow>
            JStr [])))"

text \<open>
  Lines 276-334: the value assigned to \<^verbatim>\<open>parsedText\<close> for the payload
  \<^verbatim>\<open>documentData\<close>.  \<^verbatim>\<open>Object.keys(documentData)\<close> on line 276 raises a
  \<^verbatim>\<open>TypeError\<close> for \<^verbatim>\<open>null\<close>.  \<open>stringify\<close> is \<^verbatim>\<open>JSON.stringify(_, null, 2)\<close>.
\<close>

definition extractText :: "(json \<Rightarrow> string) \<Rightarrow> json \<Rightarrow> exn + json" where
  "extractText stringify documentData =
     (if documentData = JNull then Inl TypeError
      else Inr
       (case truthyField documentData ''markdown'' of Some v \<Rightarrow> v | None \<Rightarrow>
       (case truthyField documentData ''text'' of Some v \<Rightarrow> v | None \<Rightarrow>
       (case truthyField documentData ''content'' of Some v \<Rightarrow> v | None \<Rightarrow>
       (case truthyField documentData ''parsed_content'' of Some v \<Rightarrow> v | None \<Rightarrow>
       (case truthyField documentData ''result'' of Some r \<Rightarrow> fromResult r | None \<Rightarrow>
       (case truthyField documentData ''data'' of Some r \<Rightarrow> fromData r | None \<Rightarrow>
       (case truthyField documentData ''document'' of Some r \<Rightarrow> fromData r | None \<Rightarrow>
        (if isString documentData then documentData
         else (case findTextInObject documentData of
                 Some s \<Rightarrow> JStr s
               | None \<Rightarrow> JStr (stringify documentData)))))))))))"

section \<open>The remote parsing service\<close>

text \<open>
  An \<^verbatim>\<open>axios\<close> request either resolves with the parsed body \<^verbatim>\<open>response.data\<close> or
  is rejected; a rejection carries the HTTP status of the response when there was one.
\<close>

datatype http = Resp json | Fail "nat option"

text \<open>
  The requests of a call.  The eight \<^verbatim>\<open>GET\<close> endpoints are, for the job id \<^verbatim>\<open>ID\<close>:

  \<^item> \<open>JobV1\<close>: \<^verbatim>\<open>/api/v1/parsing/job/ID\<close>, \<open>JobLegacy\<close>: \<^verbatim>\<open>/api/parsing/job/ID\<close>;
  \<^item> \<open>ResultV1\<close>: \<^verbatim>\<open>/api/v1/parsing/job/ID/result\<close>,
    \<open>DownloadV1\<close>: \<^verbatim>\<open>/api/v1/parsing/job/ID/download\<close>;
  \<^item> \<open>ResultLegacy\<close>: \<^verbatim>\<open>/api/parsing/job/ID/result\<close>,
    \<open>DownloadLegacy\<close>: \<^verbatim>\<open>/api/parsing/job/ID/download\<close>,
    \<open>ContentLegacy\<close>: \<^verbatim>\<open>/api/parsing/job/ID/content\<close>,
    \<open>ParsedLegacy\<close>: \<^verbatim>\<open>/api/parsing/job/ID/parsed\<close>.
\<close>

datatype endpoint =
    JobV1 | JobLegacy
  | ResultV1 | DownloadV1
  | ResultLegacy | DownloadLegacy | ContentLegacy | ParsedLegacy

datatype request = Upload | Get endpoint json

text \<open>
  The remote service is a state \<open>'w\<close> together with its answers: \<open>post\<close> answers the
  upload, \<open>get e jobId\<close> answers a \<^verbatim>\<open>GET\<close> of endpoint \<open>e\<close> for the job.  The program's
  side of the state is the list of the requests it has sent so far.
\<close>

type_synonym 'w poster = "'w \<Rightarrow> http \<times> 'w"
type_synonym 'w getter = "endpoint \<Rightarrow> json \<Rightarrow> 'w \<Rightarrow> http \<times> 'w"
type_synonym 'w net = "request list \<times> 'w"

definition httpPost :: "'w poster \<Rightarrow> 'w net \<Rightarrow> http \<times> 'w net" where
  "httpPost post st =
     (case post (snd st) of (r, w') \<Rightarrow> (r, (fst st @ [Upload], w')))"

definition httpGet :: "'w getter \<Rightarrow> endpoint \<Rightarrow> json \<Rightarrow> 'w net \<Rightarrow> http \<times> 'w net" where
  "httpGet get e jobId st =
     (case get e jobId (snd st) of (r, w') \<Rightarrow> (r, (fst st @ [Get e jobId], w')))"

section \<open>One polling iteration\<close>

text \<open>
  Lines 156-180: the status query.  The primary endpoint is asked first; whatever its
  failure, the legacy endpoint is asked next, and it is the legacy endpoint's rejection
  that leaves the query.
\<close>

definition getStatus :: "'w getter \<Rightarrow> json \<Rightarrow> 'w net \<Rightarrow> (exn + json) \<times> 'w net" where
  "getStatus get jobId st =
     (case httpGet get JobV1 jobId st of
        (Resp d, st1) \<Rightarrow> (Inr d, st1)
      | (Fail c1, st1) \<Rightarrow>
          (case httpGet get JobLegacy jobId st1 of
             (Resp d, st2) \<Rightarrow> (Inr d, st2)
           | (Fail c2, st2) \<Rightarrow> (Inl (AxiosError c2), st2)))"

text \<open>Lines 185, 342, 345 and 347: the branch taken for \<^verbatim>\<open>statusResponse.data.status\<close>.\<close>

datatype status_class = StSuccess | StError | StPending | StUnknown

definition statusClass :: "json option \<Rightarrow> status_class" where
  "statusClass status =
     (if status = Some (JStr ''success'') \<or> status = Some (JStr ''SUCCESS'') then StSuccess
      else if status = Some (JStr ''error'') \<or> status = Some (JStr ''ERROR'') then StError
      else if status = Some (JStr ''pending'') \<or> status = Some (JStr ''PENDING'') then StPending
      else StUnknown)"

text \<open>Lines 197-198: \<^verbatim>\<open>hasResult\<close>, as a truth value.\<close>

definition isTruthyField :: "json \<Rightarrow> string \<Rightarrow> bool" where
  "isTruthyField obj k = (case truthyField obj k of None \<Rightarrow> False | Some v \<Rightarrow> True)"

definition hasResult :: "json \<Rightarrow> bool" where
  "hasResult documentData =
     (isTruthyField documentData ''markdown'' \<or>
      isTruthyField documentData ''text'' \<or>
      isTruthyField documentData ''content'' \<or>
      isTruthyField documentData ''result'' \<or>
      isTruthyField documentData ''data'' \<or>
      isTruthyField documentData ''parsed_content'')"

definition resultEndpoints :: "endpoint list" where
  "resultEndpoints =
     [ResultV1, DownloadV1, ResultLegacy, DownloadLegacy, ContentLegacy, ParsedLegacy]"

text \<open>
  Lines 213-236: the loop over the result endpoints, returning the body of the first one
  that answers.  A body \<^verbatim>\<open>null\<close> makes \<^verbatim>\<open>Object.keys(documentData)\<close> on line 225 raise
  inside the \<^verbatim>\<open>try\<close>, so that endpoint counts as failed; the \<^verbatim>\<open>null\<close> it left in
  \<^verbatim>\<open>documentData\<close> is overwritten by a later endpoint or by lines 253, 267 or 270.
\<close>

fun tryEndpoints ::
  "'w getter \<Rightarrow> json \<Rightarrow> endpoint list \<Rightarrow> 'w net \<Rightarrow> json option \<times> 'w net" where
  "tryEndpoints get jobId [] st = (None, st)"
| "tryEndpoints get jobId (e # es) st =
     (case httpGet get e jobId st of
        (Resp d, st1) \<Rightarrow>
          (if d = JNull then tryEndpoints get jobId es st1 else (Some d, st1))
      | (Fail c, st1) \<Rightarrow> tryEndpoints get jobId es st1)"

text \<open>Lines 240-272: the fresh status check, with the status body as the last fallback.\<close>

definition freshStatus :: "'w getter \<Rightarrow> json \<Rightarrow> json \<Rightarrow> 'w net \<Rightarrow> json \<times> 'w net" where
  "freshStatus get jobId statusData st =
     (case httpGet get JobV1 jobId st of
        (Resp d, st1) \<Rightarrow> (d, st1)
      | (Fail c1, st1) \<Rightarrow>
          (case httpGet get JobLegacy jobId st1 of
             (Resp d, st2) \<Rightarrow> (d, st2)
           | (Fail c2, st2) \<Rightarrow> (statusData, st2)))"

text \<open>Lines 190-274: the payload \<^verbatim>\<open>documentData\<close> the text is extracted from.\<close>

definition resolveDocument :: "'w getter \<Rightarrow> json \<Rightarrow> json \<Rightarrow> 'w net \<Rightarrow> json \<times> 'w net" where
  "resolveDocument get jobId statusData st =
     (if hasResult statusData then (statusData, st)
      else (case tryEndpoints get jobId resultEndpoints st of
              (Some d, st1) \<Rightarrow> (d, st1)
            | (None, st1) \<Rightarrow> freshStatus get jobId statusData st1))"

text \<open>
  The outcome of the \<^verbatim>\<open>try\<close> block of an iteration when it raises nothing: \<open>Break t\<close>
  is the \<^verbatim>\<open>break\<close> of line 338 with \<^verbatim>\<open>parsedText = t\<close>, \<open>Next\<close> is reaching its end.
\<close>

datatype step = Break json | Next

text \<open>Line 343: \<^verbatim>\<open>data.error || data.message || 'LlamaParse parsing failed'\<close>.\<close>

definition errorMsg :: "json \<Rightarrow> json" where
  "errorMsg statusData =
     (case truthyField statusData ''error'' of Some v \<Rightarrow> v | None \<Rightarrow>
     (case truthyField statusData ''message'' of Some v \<Rightarrow> v | None \<Rightarrow>
      JStr ''LlamaParse parsing failed''))"

text \<open>
  Lines 154-349: the \<^verbatim>\<open>try\<close> block of an iteration.  Reading \<^verbatim>\<open>.status\<close> of a
  \<^verbatim>\<open>null\<close> body raises a \<^verbatim>\<open>TypeError\<close> (line 182).
\<close>

definition pollBody ::
  "'w getter \<Rightarrow> (json \<Rightarrow> string) \<Rightarrow> json \<Rightarrow> 'w net \<Rightarrow> (exn + step) \<times> 'w net" where
  "pollBody get stringify jobId st =
     (case getStatus get jobId st of
        (Inl e, st1) \<Rightarrow> (Inl e, st1)
      | (Inr statusData, st1) \<Rightarrow>
          (if statusData = JNull then (Inl TypeError, st1)
           else (case statusClass (field statusData ''status'') of
                   StSuccess \<Rightarrow>
                     (case resolveDocument get jobId statusData st1 of
                        (documentData, st2) \<Rightarrow>
                          (case extractText stringify documentData of
                             Inl e \<Rightarrow> (Inl e, st2)
                           | Inr parsedText \<Rightarrow>
                               (if truthy parsedText then (Inr (Break parsedText), st2)
                                else (Inr Next, st2))))
                 | StError \<Rightarrow> (Inl (ParsingFailed (errorMsg statusData)), st1)
                 | StPending \<Rightarrow> (Inr Next, st1)
                 | StUnknown \<Rightarrow> (Inr Next, st1))))"

text \<open>
  Lines 350-356: the handler of the iteration.  \<open>Some e'\<close> is the exception it raises
  in turn, \<open>None\<close> means that it returns and the loop goes on.  Only a rejected request
  has a \<^verbatim>\<open>response\<close>.
\<close>

definition pollCatch :: "exn \<Rightarrow> exn option" where
  "pollCatch pollError =
     (if pollError = AxiosError (Some 404) then Some JobNotFound else None)"

text \<open>
  Lines 154-356: an iteration, the \<^verbatim>\<open>try\<close> block under its handler.  \<open>Stop t\<close> leaves
  the loop with \<^verbatim>\<open>parsedText = t\<close>, \<open>Raise e\<close> leaves it with the exception \<open>e\<close>,
  \<open>Again\<close> goes on to \<^verbatim>\<open>attempts++\<close>.
\<close>

datatype outcome = Stop json | Raise exn | Again

definition pollIteration ::
  "'w getter \<Rightarrow> (json \<Rightarrow> string) \<Rightarrow> json \<Rightarrow> 'w net \<Rightarrow> outcome \<times> 'w net" where
  "pollIteration get stringify jobId st =
     (case pollBody get stringify jobId st of
        (Inr (Break parsedText), st1) \<Rightarrow> (Stop parsedText, st1)
      | (Inr Next, st1) \<Rightarrow> (Again, st1)
      | (Inl pollError, st1) \<Rightarrow>
          (case pollCatch pollError of
             Some e \<Rightarrow> (Raise e, st1)
           | None \<Rightarrow> (Again, st1)))"

section \<open>The polling loop and the whole parse\<close>

definition maxAttempts :: nat where
  "maxAttempts = 60"

text \<open>
  Lines 151-359: the \<^verbatim>\<open>while\<close> loop.  The result is either the exception that left
  the loop or the values of \<^verbatim>\<open>parsedText\<close> and \<^verbatim>\<open>attempts\<close> after it.  The waits of
  lines 152 and 187 take time and do nothing else.
\<close>

function pollLoop ::
  "'w getter \<Rightarrow> (json \<Rightarrow> string) \<Rightarrow> json \<Rightarrow> nat \<Rightarrow> 'w net \<Rightarrow> (exn + json \<times> nat) \<times> 'w net" where
  "pollLoop get stringify jobId attempts st =
     (if attempts < maxAttempts then
        (case pollIteration get stringify jobId st of
           (Stop parsedText, st1) \<Rightarrow> (Inr (parsedText, attempts), st1)
         | (Raise e, st1) \<Rightarrow> (Inl e, st1)
         | (Again, st1) \<Rightarrow> pollLoop get stringify jobId (attempts + 1) st1)
      else (Inr (JStr [], attempts), st))"
  by pat_completeness auto
termination
  by (relation "measure (\<lambda>(get, stringify, jobId, attempts, st). maxAttempts - attempts)") auto

declare pollLoop.simps [simp del]

text \<open>Lines 361-369: after the loop.\<close>

definition afterLoop :: "json \<Rightarrow> nat \<Rightarrow> exn + json" where
  "afterLoop parsedText attempts =
     (if \<not> truthy parsedText \<and> attempts \<ge> maxAttempts then Inl TimedOut
      else if \<not> truthy parsedText then Inl NoTextExtracted
      else Inr parsedText)"

text \<open>Lines 147-369: polling a job from \<^verbatim>\<open>attempts = 0\<close> to the text or the failure.\<close>

definition pollForText ::
  "'w getter \<Rightarrow> (json \<Rightarrow> string) \<Rightarrow> json \<Rightarrow> 'w net \<Rightarrow> (exn + json) \<times> 'w net" where
  "pollForText get stringify jobId st =
     (case pollLoop get stringify jobId 0 st of
        (Inl e, st1) \<Rightarrow> (Inl e, st1)
      | (Inr (parsedText, attempts), st1) \<Rightarrow> (afterLoop parsedText attempts, st1))"

text \<open>Line 138: \<^verbatim>\<open>response.data.id || response.data.job_id\<close>; \<open>None\<close> is \<^verbatim>\<open>undefined\<close>.\<close>

definition jobIdOf :: "json \<Rightarrow> json option" where
  "jobIdOf d =
     (case truthyField d ''id'' of Some v \<Rightarrow> Some v | None \<Rightarrow> field d ''job_id'')"

text \<open>
  Lines 109-369: the upload and the polling.  A rejected upload is raised again by its
  own handler (lines 130-133); reading \<^verbatim>\<open>.id\<close> of a \<^verbatim>\<open>null\<close> body raises a
  \<^verbatim>\<open>TypeError\<close>.  Opening the file for the upload is left out.
\<close>

definition parseRemote ::
  "'w poster \<Rightarrow> 'w getter \<Rightarrow> (json \<Rightarrow> string) \<Rightarrow> 'w net \<Rightarrow> (exn + json) \<times> 'w net" where
  "parseRemote post get stringify st =
     (case httpPost post st of
        (Fail c, st1) \<Rightarrow> (Inl (AxiosError c), st1)
      | (Resp d, st1) \<Rightarrow>
          (if d = JNull then (Inl TypeError, st1)
           else (case jobIdOf d of
                   None \<Rightarrow> (Inl (NoJobId d), st1)
                 | Some jobId \<Rightarrow>
                     (if \<not> truthy jobId then (Inl (NoJobId d), st1)
                      else pollForText get stringify jobId st1))))"

text \<open>
  \<^verbatim>\<open>parseDocumentWithLlamaParse\<close> (lines 100-385).  \<open>textContent\<close> is the result of
  \<^verbatim>\<open>readTextFile(filePath)\<close>, \<open>None\<close> for \<^verbatim>\<open>null\<close>.  The outer handler (lines 370-384)
  raises every exception again as an \<^verbatim>\<open>Error\<close> whose message is prefixed with
  \<^verbatim>\<open>'Failed to parse document with LlamaParse'\<close>; the exception it was given is kept here
  as the failure of the call.
\<close>

definition parseDocumentWithLlamaParse ::
  "'w poster \<Rightarrow> 'w getter \<Rightarrow> (json \<Rightarrow> string) \<Rightarrow> string option \<Rightarrow> 'w net
     \<Rightarrow> (exn + json) \<times> 'w net" where
  "parseDocumentWithLlamaParse post get stringify textContent st =
     (case textContent of
        None \<Rightarrow> parseRemote post get stringify st
      | Some content \<Rightarrow>
          (if content \<noteq> [] then (Inr (JStr content), st)
           else parseRemote post get stringify st))"

section \<open>Summarising with Gemini\<close>

text \<open>\<^verbatim>\<open>message.includes(p)\<close>: \<open>p\<close> starts at some position of the message.\<close>

fun startsWith :: "string \<Rightarrow> string \<Rightarrow> bool" where
  "startsWith s [] = True"
| "startsWith [] (p # ps) = False"
| "startsWith (c # cs) (p # ps) = (c = p \<and> startsWith cs ps)"

fun includesStr :: "string \<Rightarrow> string \<Rightarrow> bool" where
  "includesStr [] p = (p = [])"
| "includesStr (c # cs) p = (startsWith (c # cs) p \<or> includesStr cs p)"

text \<open>Lines 390-399: the prompt, a template literal over eight lines.\<close>

definition newline :: string where
  "newline = [CHR 0x0A]"

definition mkPrompt :: "string \<Rightarrow> string \<Rightarrow> string" where
  "mkPrompt text targetLanguage =
     ''Please summarize the following health document in '' @ targetLanguage @ ''. '' @ newline @
     ''    Provide a clear, comprehensive summary that includes:'' @ newline @
     ''    1. Main health information and findings'' @ newline @
     ''    2. Important recommendations or instructions'' @ newline @
     ''    3. Any critical details that the patient should know'' @ newline @
     ''    '' @ newline @
     ''    Document content:'' @ newline @
     ''    '' @ text @ newline @
     ''    '' @ newline @
     ''    Please provide the summary in '' @ targetLanguage @ ''.''"

text \<open>
  The Gemini service.  \<open>sdk modelName prompt\<close> is lines 408-411, from
  \<^verbatim>\<open>getGenerativeModel\<close> to \<^verbatim>\<open>response.text()\<close>: the text, or the message of the
  exception raised on the way.  \<open>rest prompt\<close> is the \<^verbatim>\<open>axios.post\<close> to
  \<^verbatim>\<open>.../v1beta/models/gemini-pro:generateContent\<close>.  A run calls each model and the
  REST endpoint at most once, so one answer for each is all that a run can observe.  The
  state is the list of the calls made so far, each with its model and its prompt.
\<close>

datatype call = SdkCall string string | RestCall string string

type_synonym sdk = "string \<Rightarrow> string \<Rightarrow> string + string"
type_synonym rest = "string \<Rightarrow> http"

definition generateContent ::
  "sdk \<Rightarrow> string \<Rightarrow> string \<Rightarrow> call list \<Rightarrow> (string + string) \<times> call list" where
  "generateContent sdk modelName prompt calls =
     (sdk modelName prompt, calls @ [SdkCall modelName prompt])"

definition restPost :: "rest \<Rightarrow> string \<Rightarrow> call list \<Rightarrow> http \<times> call list" where
  "restPost rest prompt calls = (rest prompt, calls @ [RestCall ''gemini-pro'' prompt])"

definition modelNames :: "string list" where
  "modelNames = [''gemini-1.5-flash'', ''gemini-1.5-pro'', ''gemini-pro'']"

text \<open>Line 417: the test on \<^verbatim>\<open>modelError.message\<close> that lets the next model be tried.\<close>

definition notFound :: "string \<Rightarrow> bool" where
  "notFound message = (includesStr message ''404'' \<or> includesStr message ''not found'')"

text \<open>
  Lines 405-423: the loop over the candidate models.  \<open>Inr summary\<close> is leaving the loop
  with the variable \<^verbatim>\<open>summary\<close>, \<open>None\<close> for its initial \<^verbatim>\<open>null\<close>; \<open>Inl\<close> is the
  \<^verbatim>\<open>throw modelError\<close> of line 421.
\<close>

fun tryModels ::
  "sdk \<Rightarrow> string \<Rightarrow> string list \<Rightarrow> call list \<Rightarrow> (exn + string option) \<times> call list" where
  "tryModels sdk prompt [] calls = (Inr None, calls)"
| "tryModels sdk prompt (modelName # others) calls =
     (case generateContent sdk modelName prompt calls of
        (Inr text, calls1) \<Rightarrow> (Inr (Some text), calls1)
      | (Inl message, calls1) \<Rightarrow>
          (if notFound message then tryModels sdk prompt others calls1
           else (Inl (ModelError message), calls1)))"

text \<open>
  \<^verbatim>\<open>a?.key\<close> and \<^verbatim>\<open>a?.[0]\<close>: \<^verbatim>\<open>undefined\<close> when \<^verbatim>\<open>a\<close> is \<^verbatim>\<open>null\<close> or
  \<^verbatim>\<open>undefined\<close>.  Index 0 of a string is its first character.
\<close>

definition optField :: "json option \<Rightarrow> string \<Rightarrow> json option" where
  "optField a k = (case a of None \<Rightarrow> None | Some v \<Rightarrow> field v k)"

fun index0 :: "json \<Rightarrow> json option" where
  "index0 (JArr []) = None"
| "index0 (JArr (x # xs)) = Some x"
| "index0 (JObj kvs) = map_of kvs ''0''"
| "index0 (JStr []) = None"
| "index0 (JStr (c # cs)) = Some (JStr [c])"
| "index0 v = None"

definition optIndex0 :: "json option \<Rightarrow> json option" where
  "optIndex0 a = (case a of None \<Rightarrow> None | Some v \<Rightarrow> index0 v)"

text \<open>Line 444: \<^verbatim>\<open>restResponse.data?.candidates?.[0]?.content?.parts?.[0]?.text\<close>.\<close>

definition restText :: "json \<Rightarrow> json option" where
  "restText d =
     optField (optIndex0 (optField (optField (optIndex0 (optField (Some d)
       ''candidates'')) ''content'') ''parts'')) ''text''"

text \<open>Lines 425-450: the direct REST call made when \<^verbatim>\<open>summary\<close> is falsy.\<close>

definition restFallback :: "rest \<Rightarrow> string \<Rightarrow> call list \<Rightarrow> (exn + json) \<times> call list" where
  "restFallback rest prompt calls =
     (case restPost rest prompt calls of
        (Fail c, calls1) \<Rightarrow> (Inl (AxiosError c), calls1)
      | (Resp d, calls1) \<Rightarrow>
          (case restText d of
             None \<Rightarrow> (Inl GeminiNoResponse, calls1)
           | Some v \<Rightarrow>
               (if truthy v then (Inr v, calls1) else (Inl GeminiNoResponse, calls1))))"

text \<open>
  \<^verbatim>\<open>summarizeWithGemini\<close> (lines 388-458); its handler raises the exception it caught
  again, unchanged.  Line 425 tests \<^verbatim>\<open>!summary\<close>: \<^verbatim>\<open>null\<close> and the empty string.
\<close>

definition summarizeWithGemini ::
  "sdk \<Rightarrow> rest \<Rightarrow> string \<Rightarrow> string \<Rightarrow> call list \<Rightarrow> (exn + json) \<times> call list" where
  "summarizeWithGemini sdk rest text targetLanguage calls =
     (case tryModels sdk (mkPrompt text targetLanguage) modelNames calls of
        (Inl e, calls1) \<Rightarrow> (Inl e, calls1)
      | (Inr None, calls1) \<Rightarrow> restFallback rest (mkPrompt text targetLanguage) calls1
      | (Inr (Some summary), calls1) \<Rightarrow>
          (if summary = [] then restFallback rest (mkPrompt text targetLanguage) calls1
           else (Inr (JStr summary), calls1)))"

section \<open>Notions of the specification\<close>

text \<open>
  The fields of the precedence list, and the strings of a payload in depth-first order:
  the properties of an object and the elements of an array from first to last, each
  searched completely before the next.
\<close>

definition precedenceFields :: "string list" where
  "precedenceFields =
     [''markdown'', ''text'', ''content'', ''parsed_content'', ''result'', ''data'', ''document'']"

fun allStrings :: "json \<Rightarrow> string list" where
  "allStrings (JStr s) = [s]"
| "allStrings (JArr xs) = concat (map allStrings xs)"
| "allStrings (JObj kvs) = concat (map (\<lambda>kv. allStrings (snd kv)) kvs)"
| "allStrings JNull = []"
| "allStrings (JBool b) = []"
| "allStrings (JNum n) = []"

text \<open>
  The status normalisation in the words of the specification: the status string is
  compared without regard to the case of its letters.
\<close>

definition toLowerChar :: "char \<Rightarrow> char" where
  "toLowerChar c =
     (case map_of (zip ''ABCDEFGHIJKLMNOPQRSTUVWXYZ'' ''abcdefghijklmnopqrstuvwxyz'') c of
        Some l \<Rightarrow> l
      | None \<Rightarrow> c)"

definition specStatus :: "string \<Rightarrow> status_class" where
  "specStatus s =
     (if map toLowerChar s = ''success'' then StSuccess
      else if map toLowerChar s = ''error'' then StError
      else if map toLowerChar s = ''pending'' then StPending
      else StUnknown)"

text \<open>
  Result resolution in the words of the specification.  The fields are looked at in the
  order \<^verbatim>\<open>markdown\<close>, \<^verbatim>\<open>text\<close>, \<^verbatim>\<open>content\<close>, \<^verbatim>\<open>parsed_content\<close>, \<^verbatim>\<open>result\<close>,
  \<^verbatim>\<open>data\<close>, \<^verbatim>\<open>document\<close>, and the first one with a truthy value is the matching
  field; \<^verbatim>\<open>result\<close>, \<^verbatim>\<open>data\<close> and \<^verbatim>\<open>document\<close> are looked into one level, for
  \<^verbatim>\<open>markdown\<close>, \<^verbatim>\<open>text\<close> and \<^verbatim>\<open>content\<close>, when they are not strings themselves; a
  payload that is a string is its own text.  \<open>specResolve\<close> is the string value of the
  matching field, \<open>None\<close> when its value is not a string.
\<close>

fun stringOf :: "json \<Rightarrow> string option" where
  "stringOf (JStr s) = Some s"
| "stringOf v = None"

definition specInner :: "json \<Rightarrow> string option" where
  "specInner r =
     (case truthyField r ''markdown'' of Some v \<Rightarrow> stringOf v | None \<Rightarrow>
     (case truthyField r ''text'' of Some v \<Rightarrow> stringOf v | None \<Rightarrow>
     (case truthyField r ''content'' of Some v \<Rightarrow> stringOf v | None \<Rightarrow> None)))"

definition specNested :: "json \<Rightarrow> string option" where
  "specNested r = (if isString r then stringOf r else specInner r)"

definition specResolve :: "json \<Rightarrow> string option" where
  "specResolve payload =
     (case truthyField payload ''markdown'' of Some v \<Rightarrow> stringOf v | None \<Rightarrow>
     (case truthyField payload ''text'' of Some v \<Rightarrow> stringOf v | None \<Rightarrow>
     (case truthyField payload ''content'' of Some v \<Rightarrow> stringOf v | None \<Rightarrow>
     (case truthyField payload ''parsed_content'' of Some v \<Rightarrow> stringOf v | None \<Rightarrow>
     (case truthyField payload ''result'' of Some r \<Rightarrow> specNested r | None \<Rightarrow>
     (case truthyField payload ''data'' of Some r \<Rightarrow> specNested r | None \<Rightarrow>
     (case truthyField payload ''document'' of Some r \<Rightarrow> specNested r | None \<Rightarrow>
      stringOf payload)))))))"

section \<open>Sample services\<close>

text \<open>
  Concrete remote services, used as inputs.  The state of a service is the number of
  \<^verbatim>\<open>GET\<close> requests it has answered.
\<close>

definition sampleUpload :: "nat poster" where
  "sampleUpload n = (Resp (JObj [(''id'', JStr ''job-1'')]), n)"

definition noIdUpload :: "nat poster" where
  "noIdUpload n = (Resp (JObj [(''status'', JStr ''queued'')]), n)"

definition pendingJob :: "nat getter" where
  "pendingJob e jobId n = (Resp (JObj [(''status'', JStr ''pending'')]), n + 1)"

text \<open>
  \<open>answering answers\<close> answers the request for endpoint \<open>e\<close> with \<open>answers n e\<close>,
  where \<open>n\<close> is the number of requests answered before.
\<close>

definition answering :: "(nat \<Rightarrow> endpoint \<Rightarrow> http) \<Rightarrow> nat getter" where
  "answering answers e jobId n = (answers n e, n + 1)"

section \<open>Unstructured extraction\<close>

lemma find_app:
  "List.find P (xs @ ys) = (case List.find P xs of Some x \<Rightarrow> Some x | None \<Rightarrow> List.find P ys)"
  by (induction xs) simp_all

text \<open>The search of \<^verbatim>\<open>findTextInObject\<close> returns the first long string in depth-first order.\<close>

lemma findText_first:
  "findTextInObject d =
     (if isString d then None else List.find (\<lambda>s. 100 < length s) (allStrings d))"
  "findTextInProps kvs =
     List.find (\<lambda>s. 100 < length s) (concat (map (\<lambda>kv. allStrings (snd kv)) kvs))"
  "findTextInItems xs = List.find (\<lambda>s. 100 < length s) (concat (map allStrings xs))"
  "findTextAt v = List.find (\<lambda>s. 100 < length s) (allStrings v)"
  by (induction d and kvs and xs and v
      rule: findTextInObject_findTextInProps_findTextInItems_findTextAt.induct)
     (simp_all add: find_app split: option.splits)

lemma extractText_fallback:
  assumes "documentData \<noteq> JNull" and "\<not> isString documentData"
    and "\<forall>k \<in> set precedenceFields. truthyField documentData k = None"
  shows "extractText stringify documentData =
           Inr (case List.find (\<lambda>s. 100 < length s) (allStrings documentData) of
                  Some s \<Rightarrow> JStr s
                | None \<Rightarrow> JStr (stringify documentData))"
  using assms by (simp add: extractText_def precedenceFields_def findText_first(1))

section \<open>The polling loop\<close>

lemma pollLoop_Stop:
  "attempts < maxAttempts \<Longrightarrow> pollIteration get stringify jobId st = (Stop t, st1)
   \<Longrightarrow> pollLoop get stringify jobId attempts st = (Inr (t, attempts), st1)"
  by (simp add: pollLoop.simps)

lemma pollLoop_Raise:
  "attempts < maxAttempts \<Longrightarrow> pollIteration get stringify jobId st = (Raise e, st1)
   \<Longrightarrow> pollLoop get stringify jobId attempts st = (Inl e, st1)"
  by (simp add: pollLoop.simps)

lemma pollLoop_Again:
  "attempts < maxAttempts \<Longrightarrow> pollIteration get stringify jobId st = (Again, st1)
   \<Longrightarrow> pollLoop get stringify jobId attempts st
       = pollLoop get stringify jobId (attempts + 1) st1"
  by (simp add: pollLoop.simps)

lemma pollLoop_done:
  "\<not> attempts < maxAttempts
   \<Longrightarrow> pollLoop get stringify jobId attempts st = (Inr (JStr [], attempts), st)"
  by (simp add: pollLoop.simps)

lemma pollBody_Break_truthy:
  "pollBody get stringify jobId st = (Inr (Break t), st1) \<Longrightarrow> truthy t"
  by (auto simp: pollBody_def split: prod.splits sum.splits if_splits status_class.splits)

lemma pollIteration_Stop_truthy:
  "pollIteration get stringify jobId st = (Stop t, st1) \<Longrightarrow> truthy t"
  by (auto simp: pollIteration_def split: prod.splits sum.splits step.splits option.splits
      dest: pollBody_Break_truthy)

lemma pollIteration_Raise:
  "pollIteration get stringify jobId st = (Raise e, st1) \<Longrightarrow> e = JobNotFound"
  by (auto simp: pollIteration_def pollCatch_def
      split: prod.splits sum.splits step.splits option.splits if_splits)

lemma pollLoop_exit:
  "pollLoop get stringify jobId attempts st = (Inr (p, n), st') \<Longrightarrow> attempts \<le> maxAttempts
   \<Longrightarrow> (truthy p \<and> n < maxAttempts) \<or> (p = JStr [] \<and> n = maxAttempts)"
proof (induction get stringify jobId attempts st rule: pollLoop.induct)
  case (1 get stringify jobId attempts st)
  show ?case
  proof (cases "attempts < maxAttempts")
    case False
    with "1.prems" show ?thesis by (simp add: pollLoop_done)
  next
    case True
    obtain r st1 where it: "pollIteration get stringify jobId st = (r, st1)"
      by (cases "pollIteration get stringify jobId st")
    show ?thesis
    proof (cases r)
      case (Stop t)
      with it True "1.prems" show ?thesis
        by (auto simp: pollLoop_Stop dest: pollIteration_Stop_truthy)
    next
      case (Raise e)
      with it True "1.prems" show ?thesis by (simp add: pollLoop_Raise)
    next
      case Again
      with it True "1.prems" "1.IH" [OF True it [symmetric]] show ?thesis
        by (simp add: pollLoop_Again)
    qed
  qed
qed

lemma pollLoop_invariant:
  assumes step: "\<And>st. I st \<Longrightarrow> \<exists>st'. pollIteration get stringify jobId st = (Again, st') \<and> I st'"
  shows "I st \<Longrightarrow> attempts \<le> maxAttempts
    \<Longrightarrow> \<exists>st'. pollLoop get stringify jobId attempts st = (Inr (JStr [], maxAttempts), st') \<and> I st'"
proof (induction "maxAttempts - attempts" arbitrary: attempts st)
  case 0
  then show ?case by (auto simp: pollLoop_done)
next
  case (Suc k)
  then have lt: "attempts < maxAttempts" by simp
  from step [OF Suc.prems(1)] obtain st1
    where it: "pollIteration get stringify jobId st = (Again, st1)" and i1: "I st1" by blast
  from Suc.hyps(2) have "k = maxAttempts - (attempts + 1)" by simp
  from Suc.hyps(1) [OF this i1] lt
  obtain st' where "pollLoop get stringify jobId (attempts + 1) st1
      = (Inr (JStr [], maxAttempts), st')" and "I st'" by auto
  with lt it show ?case by (auto simp: pollLoop_Again)
qed


lemma pollLoop_raises:
  "pollLoop get stringify jobId attempts st = (Inl e, st') \<Longrightarrow> e = JobNotFound"
proof (induction get stringify jobId attempts st rule: pollLoop.induct)
  case (1 get stringify jobId attempts st)
  show ?case
  proof (cases "attempts < maxAttempts")
    case False
    with "1.prems" show ?thesis by (simp add: pollLoop_done)
  next
    case True
    obtain r st1 where it: "pollIteration get stringify jobId st = (r, st1)"
      by (cases "pollIteration get stringify jobId st")
    show ?thesis
    proof (cases r)
      case (Stop t)
      with it True "1.prems" show ?thesis by (simp add: pollLoop_Stop)
    next
      case (Raise e')
      with it True "1.prems" show ?thesis
        by (auto simp: pollLoop_Raise dest: pollIteration_Raise)
    next
      case Again
      with it True "1.prems" "1.IH" [OF True it [symmetric]] show ?thesis
        by (simp add: pollLoop_Again)
    qed
  qed
qed

lemma pollForText_outcomes:
  assumes "pollForText get stringify jobId st = (r, st')"
  shows "r = Inl TimedOut \<or> r = Inl JobNotFound \<or> (\<exists>t. r = Inr t \<and> truthy t)"
proof -
  obtain x st1 where Pair: "pollLoop get stringify jobId 0 st = (x, st1)"
    by (cases "pollLoop get stringify jobId 0 st")
  show ?thesis
  proof (cases x)
    case (Inl e)
    with Pair assms pollLoop_raises [of get stringify jobId 0 st e st1] show ?thesis
      by (simp add: pollForText_def)
  next
    case (Inr pn)
    obtain p n where pn: "pn = (p, n)" by (cases pn)
    from pollLoop_exit [of get stringify jobId 0 st p n st1] Pair Inr pn
    have "(truthy p \<and> n < maxAttempts) \<or> (p = JStr [] \<and> n = maxAttempts)" by simp
    with Pair Inr pn assms show ?thesis
      by (auto simp: pollForText_def afterLoop_def)
  qed
qed

lemma pollForText_invariant:
  assumes "\<And>st. I st \<Longrightarrow> \<exists>st'. pollIteration get stringify jobId st = (Again, st') \<and> I st'"
    and "I st"
  shows "\<exists>st'. pollForText get stringify jobId st = (Inl TimedOut, st') \<and> I st'"
proof -
  from pollLoop_invariant [of I get stringify jobId st 0, OF assms(1) assms(2)]
  obtain st' where "pollLoop get stringify jobId 0 st = (Inr (JStr [], maxAttempts), st')"
    and "I st'" by auto
  then show ?thesis by (auto simp: pollForText_def afterLoop_def)
qed

lemma pollIteration_pending:
  assumes "get JobV1 jobId w = (Resp d, w')"
    and "statusClass (field d ''status'') = StPending \<or> statusClass (field d ''status'') = StUnknown"
    and "d \<noteq> JNull"
  shows "pollIteration get stringify jobId (log, w) = (Again, (log @ [Get JobV1 jobId], w'))"
  using assms
  by (auto simp add: pollIteration_def pollBody_def getStatus_def httpGet_def)

lemma pollLoop_requests:
  assumes step: "\<And>log w. \<exists>w'. pollIteration get stringify jobId (log, w) = (Again, (log @ rs, w'))"
  shows "attempts \<le> maxAttempts
    \<Longrightarrow> \<exists>w'. pollLoop get stringify jobId attempts (log, w)
           = (Inr (JStr [], maxAttempts),
              (log @ concat (replicate (maxAttempts - attempts) rs), w'))"
proof (induction "maxAttempts - attempts" arbitrary: attempts log w)
  case 0
  then show ?case by (auto simp: pollLoop_done)
next
  case (Suc k)
  then have lt: "attempts < maxAttempts" by simp
  from step [of log w] obtain w1
    where it: "pollIteration get stringify jobId (log, w) = (Again, (log @ rs, w1))" by blast
  from Suc.hyps(2) have k: "k = maxAttempts - (attempts + 1)" by simp
  from Suc.hyps(1) [OF k, of "log @ rs" w1] lt
  obtain w' where "pollLoop get stringify jobId (attempts + 1) (log @ rs, w1)
      = (Inr (JStr [], maxAttempts),
         ((log @ rs) @ concat (replicate (maxAttempts - (attempts + 1)) rs), w'))" by auto
  moreover have "maxAttempts - attempts = Suc (maxAttempts - (attempts + 1))"
    using lt by simp
  ultimately show ?case using lt it by (simp add: pollLoop_Again)
qed

lemma pollForText_requests:
  assumes "\<And>log w. \<exists>w'. pollIteration get stringify jobId (log, w) = (Again, (log @ rs, w'))"
  shows "\<exists>w'. pollForText get stringify jobId (log, w)
           = (Inl TimedOut, (log @ concat (replicate maxAttempts rs), w'))"
proof -
  from pollLoop_requests [of get stringify jobId rs 0 log w, OF assms]
  obtain w' where "pollLoop get stringify jobId 0 (log, w)
           = (Inr (JStr [], maxAttempts), (log @ concat (replicate maxAttempts rs), w'))"
    by auto
  then show ?thesis by (auto simp: pollForText_def afterLoop_def)
qed


lemma parse_polls:
  assumes "textContent = None \<or> textContent = Some []"
    and "post w = (Resp d, w1)" and "jobIdOf d = Some jobId" and "truthy jobId"
  shows "parseDocumentWithLlamaParse post get stringify textContent (log, w)
           = pollForText get stringify jobId (log @ [Upload], w1)"
proof -
  from assms(3) have "d \<noteq> JNull"
    by (auto simp: jobIdOf_def truthyField_def)
  with assms show ?thesis
    by (auto simp: parseDocumentWithLlamaParse_def parseRemote_def httpPost_def)
qed

text \<open>
  Claim C7.  After an upload that returned a job id, a call can end in three ways only:
  with the time-out error, with the job-not-found error, or with a truthy parsed text.
  If every iteration goes on to the next attempt (stated with an invariant \<open>I\<close> of the
  service), the call fails with the time-out error.  In particular, if the primary status
  endpoint always answers with a pending status, the call fails with the time-out error
  after exactly \<open>maxAttempts\<close> status requests, one for each iteration.
\<close>

theorem parse_timeout:
  assumes "textContent = None \<or> textContent = Some []"
    and "post w = (Resp d, w1)" and "jobIdOf d = Some jobId" and "truthy jobId"
  shows "(\<forall>r st'. parseDocumentWithLlamaParse post get stringify textContent (log, w) = (r, st')
            \<longrightarrow> r = Inl TimedOut \<or> r = Inl JobNotFound \<or> (\<exists>t. r = Inr t \<and> truthy t))
       \<and> ((\<forall>st. I st \<longrightarrow> (\<exists>st'. pollIteration get stringify jobId st = (Again, st') \<and> I st'))
            \<and> I (log @ [Upload], w1)
          \<longrightarrow> (\<exists>st'. parseDocumentWithLlamaParse post get stringify textContent (log, w)
                  = (Inl TimedOut, st')))
       \<and> ((\<forall>v. \<exists>d' v'. get JobV1 jobId v = (Resp d', v')
                  \<and> statusClass (field d' ''status'') = StPending)
          \<longrightarrow> (\<exists>w'. parseDocumentWithLlamaParse post get stringify textContent (log, w)
                  = (Inl TimedOut,
                     (log @ Upload # replicate maxAttempts (Get JobV1 jobId), w'))))"
proof -
  have polls: "parseDocumentWithLlamaParse post get stringify textContent (log, w)
           = pollForText get stringify jobId (log @ [Upload], w1)"
    using assms by (rule parse_polls)
  have a: "\<forall>r st'. parseDocumentWithLlamaParse post get stringify textContent (log, w) = (r, st')
            \<longrightarrow> r = Inl TimedOut \<or> r = Inl JobNotFound \<or> (\<exists>t. r = Inr t \<and> truthy t)"
    unfolding polls by (blast dest: pollForText_outcomes)
  have b: "\<exists>st'. parseDocumentWithLlamaParse post get stringify textContent (log, w)
                  = (Inl TimedOut, st')"
    if "\<forall>st. I st \<longrightarrow> (\<exists>st'. pollIteration get stringify jobId st = (Again, st') \<and> I st')"
      and "I (log @ [Upload], w1)"
  proof -
    from that(1) have "\<And>st. I st \<Longrightarrow> \<exists>st'. pollIteration get stringify jobId st = (Again, st') \<and> I st'"
      by blast
    from pollForText_invariant [of I get stringify jobId, OF this that(2)]
    show ?thesis unfolding polls by blast
  qed
  have c: "\<exists>w'. parseDocumentWithLlamaParse post get stringify textContent (log, w)
                  = (Inl TimedOut, (log @ Upload # replicate maxAttempts (Get JobV1 jobId), w'))"
    if p: "\<forall>v. \<exists>d' v'. get JobV1 jobId v = (Resp d', v')
                  \<and> statusClass (field d' ''status'') = StPending"
  proof -
    have "\<exists>v'. pollIteration get stringify jobId (l, v) = (Again, (l @ [Get JobV1 jobId], v'))"
      for l v
    proof -
      from p obtain d' v' where g: "get JobV1 jobId v = (Resp d', v')"
        and st: "statusClass (field d' ''status'') = StPending" by blast
      from st have "d' \<noteq> JNull" by (auto simp: statusClass_def)
      with g st show ?thesis by (auto simp: pollIteration_pending)
    qed
    from pollForText_requests [of get stringify jobId "[Get JobV1 jobId]" "log @ [Upload]" w1, OF this]
    obtain w' where "pollForText get stringify jobId (log @ [Upload], w1)
           = (Inl TimedOut, ((log @ [Upload]) @ concat (replicate maxAttempts [Get JobV1 jobId]), w'))"
      by blast
    moreover have "concat (replicate n [x]) = replicate n x" for n and x :: request
      by (induction n) simp_all
    ultimately show ?thesis unfolding polls by auto
  qed
  from a b c show ?thesis by blast
qed

theorem parse_timeout_witness:
  "\<exists>n. parseDocumentWithLlamaParse sampleUpload pendingJob (\<lambda>d. ''{}'') None ([], 0)
     = (Inl TimedOut, (Upload # replicate maxAttempts (Get JobV1 (JStr ''job-1'')), n))"
proof -
  have u: "sampleUpload 0 = (Resp (JObj [(''id'', JStr ''job-1'')]), 0)"
    by (simp add: sampleUpload_def)
  have j: "jobIdOf (JObj [(''id'', JStr ''job-1'')]) = Some (JStr ''job-1'')"
    by (simp add: jobIdOf_def truthyField_def)
  have p: "\<forall>v. \<exists>d' v'. pendingJob JobV1 (JStr ''job-1'') v = (Resp d', v')
                  \<and> statusClass (field d' ''status'') = StPending"
    by (simp add: pendingJob_def statusClass_def)
  have i: "\<forall>st. True \<longrightarrow> (\<exists>st'. pollIteration pendingJob (\<lambda>d. ''{}'') (JStr ''job-1'') st = (Again, st') \<and> True)"
    by (auto simp: pollIteration_def pollBody_def getStatus_def httpGet_def pendingJob_def
        statusClass_def split: prod.splits)
  have "None = None \<or> None = Some ([]::string)" by simp
  from parse_timeout [where post = sampleUpload and get = pendingJob and I = "\<lambda>st. True"
      and stringify = "\<lambda>d. ''{}''" and log = "[]", OF this u j] p i
  show ?thesis by simp
qed

section \<open>Submission without a job id\<close>

text \<open>
  Claim C8, as amended.  When the upload is answered with a body other than \<^verbatim>\<open>null\<close>
  that has no truthy \<^verbatim>\<open>id\<close> and no truthy \<^verbatim>\<open>job_id\<close> (in particular when both are
  absent), the call fails with the no-job-id error.  The only request it has sent is the
  upload: there is no polling and no second upload.
\<close>

theorem parse_no_job_id:
  assumes "textContent = None \<or> textContent = Some []"
    and "post w = (Resp d, w1)" and "d \<noteq> JNull"
    and "truthyField d ''id'' = None" and "truthyField d ''job_id'' = None"
  shows "parseDocumentWithLlamaParse post get stringify textContent (log, w)
           = (Inl (NoJobId d), (log @ [Upload], w1))"
proof -
  have "parseRemote post get stringify (log, w) = (Inl (NoJobId d), (log @ [Upload], w1))"
  proof (cases "field d ''job_id''")
    case None
    with assms show ?thesis
      by (simp add: parseRemote_def httpPost_def jobIdOf_def)
  next
    case (Some v)
    with assms(5) have "\<not> truthy v" by (auto simp: truthyField_def split: if_splits)
    with Some assms show ?thesis
      by (simp add: parseRemote_def httpPost_def jobIdOf_def)
  qed
  with assms(1) show ?thesis
    by (auto simp: parseDocumentWithLlamaParse_def)
qed

theorem parse_no_job_id_witness:
  "parseDocumentWithLlamaParse noIdUpload pendingJob (\<lambda>d. ''{}'') None ([], 0)
     = (Inl (NoJobId (JObj [(''status'', JStr ''queued'')])), ([Upload], 0))"
proof -
  have u: "noIdUpload 0 = (Resp (JObj [(''status'', JStr ''queued'')]), 0)"
    by (simp add: noIdUpload_def)
  have "None = None \<or> None = Some ([]::string)" by simp
  from parse_no_job_id [where post = noIdUpload and w = 0 and get = pendingJob
      and stringify = "\<lambda>d. ''{}''" and log = "[]", OF this u]
  show ?thesis by (simp add: truthyField_def)
qed

text \<open>
  Claim C8 as stated fails for an upload answered with the body \<^verbatim>\<open>null\<close>, which has
  neither field: reading \<^verbatim>\<open>.id\<close> on line 138 raises a \<^verbatim>\<open>TypeError\<close>, and that is the
  failure of the call, not the no-job-id error.
\<close>

theorem null_upload_body:
  "truthyField JNull ''id'' = None \<and> truthyField JNull ''job_id'' = None
   \<and> parseDocumentWithLlamaParse (\<lambda>n. (Resp JNull, n)) pendingJob (\<lambda>d. ''null'') None
        ([], 0::nat)
     = (Inl TypeError, ([Upload], 0))"
  by (simp add: truthyField_def parseDocumentWithLlamaParse_def parseRemote_def httpPost_def)


section \<open>Faults of the status query\<close>

lemma getStatus_both_fail:
  assumes "get JobV1 jobId w = (Fail c, w')" and "get JobLegacy jobId w' = (Fail c', w'')"
  shows "getStatus get jobId (log, w)
           = (Inl (AxiosError c'), (log @ [Get JobV1 jobId, Get JobLegacy jobId], w''))"
  using assms by (simp add: getStatus_def httpGet_def)

lemma getStatus_legacy:
  assumes "get JobV1 jobId w = (Fail c, w')" and "get JobLegacy jobId w' = (Resp d, w'')"
  shows "getStatus get jobId (log, w)
           = (Inr d, (log @ [Get JobV1 jobId, Get JobLegacy jobId], w''))"
  using assms by (simp add: getStatus_def httpGet_def)

lemma pollIteration_fault:
  assumes "getStatus get jobId st = (Inl (AxiosError c), st1)"
  shows "pollIteration get stringify jobId st
           = (if c = Some 404 then Raise JobNotFound else Again, st1)"
  using assms by (simp add: pollIteration_def pollBody_def pollCatch_def)

lemma getStatus_eq:
  "getStatus get jobId (log, w) =
     (case get JobV1 jobId w of
        (Resp d, w') \<Rightarrow> (Inr d, (log @ [Get JobV1 jobId], w'))
      | (Fail c, w') \<Rightarrow>
          (case get JobLegacy jobId w' of
             (Resp d, w'') \<Rightarrow> (Inr d, (log @ [Get JobV1 jobId, Get JobLegacy jobId], w''))
           | (Fail c', w'') \<Rightarrow>
               (Inl (AxiosError c'), (log @ [Get JobV1 jobId, Get JobLegacy jobId], w''))))"
  by (simp add: getStatus_def httpGet_def split: prod.splits http.splits)

lemma getStatus_rejected:
  "getStatus get jobId (log, w) = (Inl e, st') \<longleftrightarrow>
     (\<exists>c w' c' w''. get JobV1 jobId w = (Fail c, w') \<and> get JobLegacy jobId w' = (Fail c', w'')
        \<and> e = AxiosError c' \<and> st' = (log @ [Get JobV1 jobId, Get JobLegacy jobId], w''))"
  unfolding getStatus_eq by (auto split: prod.splits http.splits)

lemma pollBody_rejected:
  "pollBody get stringify jobId st = (Inl (AxiosError c), st')
     \<longleftrightarrow> getStatus get jobId st = (Inl (AxiosError c), st')"
  by (auto simp: pollBody_def extractText_def
      split: prod.splits sum.splits if_splits status_class.splits)

lemma pollIteration_Raise_iff:
  "pollIteration get stringify jobId st = (Raise e, st')
     \<longleftrightarrow> e = JobNotFound \<and> getStatus get jobId st = (Inl (AxiosError (Some 404)), st')"
proof -
  have "pollIteration get stringify jobId st = (Raise e, st')
     \<longleftrightarrow> e = JobNotFound \<and> pollBody get stringify jobId st = (Inl (AxiosError (Some 404)), st')"
    by (auto simp: pollIteration_def pollCatch_def
        split: prod.splits sum.splits step.splits if_splits)
  then show ?thesis by (simp add: pollBody_rejected)
qed

text \<open>
  Claim C9, as amended.  An iteration makes the call fail in one case only: the request to
  the primary status endpoint that opens the iteration is rejected and the request to the
  legacy status endpoint that follows is rejected with status 404.  The call then fails at
  once with the job-not-found error, and these two requests are the last ones sent.  Every
  other rejected request of an iteration is swallowed: a rejection of the primary status
  request, whatever its status, by asking the legacy endpoint (whose answer is then the
  status); a rejection of the legacy status request with another status, or with none, by
  going on to the next attempt; a rejection of a result endpoint by trying the next one;
  rejections of both requests of the fresh status check by keeping the status body.  Once
  the status query is answered, the iteration ends with a text or goes on to the next
  attempt.
\<close>

theorem poll_fault_handling:
  "(pollIteration get stringify jobId (log, w) = (Raise e, st') \<longleftrightarrow>
      e = JobNotFound
      \<and> (\<exists>c v v'. get JobV1 jobId w = (Fail c, v) \<and> get JobLegacy jobId v = (Fail (Some 404), v')
            \<and> st' = (log @ [Get JobV1 jobId, Get JobLegacy jobId], v')))
   \<and> (attempts < maxAttempts \<and> get JobV1 jobId w = (Fail c, w')
        \<and> get JobLegacy jobId w' = (Fail (Some 404), w'') \<longrightarrow>
        pollLoop get stringify jobId attempts (log, w)
          = (Inl JobNotFound, (log @ [Get JobV1 jobId, Get JobLegacy jobId], w''))
        \<and> pollForText get stringify jobId (log, w)
          = (Inl JobNotFound, (log @ [Get JobV1 jobId, Get JobLegacy jobId], w'')))
   \<and> (attempts < maxAttempts \<and> get JobV1 jobId w = (Fail c, w')
        \<and> get JobLegacy jobId w' = (Fail c', w'') \<and> c' \<noteq> Some 404 \<longrightarrow>
        pollLoop get stringify jobId attempts (log, w)
          = pollLoop get stringify jobId (attempts + 1)
              (log @ [Get JobV1 jobId, Get JobLegacy jobId], w''))
   \<and> (get JobV1 jobId w = (Fail c, w') \<and> get JobLegacy jobId w' = (Resp d, w'') \<longrightarrow>
        getStatus get jobId (log, w)
          = (Inr d, (log @ [Get JobV1 jobId, Get JobLegacy jobId], w'')))
   \<and> (getStatus get jobId (log, w) = (Inr statusData, st1) \<longrightarrow>
        (\<exists>t st2. pollIteration get stringify jobId (log, w) = (Stop t, st2))
        \<or> (\<exists>st2. pollIteration get stringify jobId (log, w) = (Again, st2)))
   \<and> (get ep jobId w = (Fail c, w') \<longrightarrow>
        tryEndpoints get jobId (ep # eps) (log, w)
          = tryEndpoints get jobId eps (log @ [Get ep jobId], w'))
   \<and> (get JobV1 jobId w = (Fail c, w') \<and> get JobLegacy jobId w' = (Fail c', w'') \<longrightarrow>
        freshStatus get jobId statusData (log, w)
          = (statusData, (log @ [Get JobV1 jobId, Get JobLegacy jobId], w'')))"
proof -
  have a: "pollIteration get stringify jobId (log, w) = (Raise e, st') \<longleftrightarrow>
      e = JobNotFound
      \<and> (\<exists>c v v'. get JobV1 jobId w = (Fail c, v) \<and> get JobLegacy jobId v = (Fail (Some 404), v')
            \<and> st' = (log @ [Get JobV1 jobId, Get JobLegacy jobId], v'))"
    unfolding pollIteration_Raise_iff getStatus_rejected by auto
  have b: "pollLoop get stringify jobId n (log, w)
              = (Inl JobNotFound, (log @ [Get JobV1 jobId, Get JobLegacy jobId], w''))"
    if "n < maxAttempts" "get JobV1 jobId w = (Fail c, w')"
      "get JobLegacy jobId w' = (Fail (Some 404), w'')" for n
    using that by (simp add: pollLoop_Raise pollIteration_fault getStatus_both_fail)
  have z: "0 < maxAttempts" by (simp add: maxAttempts_def)
  have c: "pollLoop get stringify jobId attempts (log, w)
              = pollLoop get stringify jobId (attempts + 1)
                  (log @ [Get JobV1 jobId, Get JobLegacy jobId], w'')"
    if "attempts < maxAttempts" "get JobV1 jobId w = (Fail c, w')"
      "get JobLegacy jobId w' = (Fail c', w'')" "c' \<noteq> Some 404"
  proof -
    from that(2-4)
    have "pollIteration get stringify jobId (log, w)
            = (Again, (log @ [Get JobV1 jobId, Get JobLegacy jobId], w''))"
      by (simp add: pollIteration_fault getStatus_both_fail)
    with that(1) show ?thesis by (rule pollLoop_Again)
  qed
  have d: "(\<exists>t st2. pollIteration get stringify jobId (log, w) = (Stop t, st2))
        \<or> (\<exists>st2. pollIteration get stringify jobId (log, w) = (Again, st2))"
    if "getStatus get jobId (log, w) = (Inr statusData, st1)"
  proof -
    obtain r st2 where it: "pollIteration get stringify jobId (log, w) = (r, st2)"
      by (cases "pollIteration get stringify jobId (log, w)")
    show ?thesis
    proof (cases r)
      case (Raise x)
      with it that show ?thesis by (simp add: pollIteration_Raise_iff)
    qed (use it in auto)
  qed
  have e: "tryEndpoints get jobId (ep # eps) (log, w)
          = tryEndpoints get jobId eps (log @ [Get ep jobId], w')"
    if "get ep jobId w = (Fail c, w')"
    using that by (simp add: httpGet_def)
  have f: "freshStatus get jobId statusData (log, w)
          = (statusData, (log @ [Get JobV1 jobId, Get JobLegacy jobId], w''))"
    if "get JobV1 jobId w = (Fail c, w')" "get JobLegacy jobId w' = (Fail c', w'')"
    using that by (simp add: freshStatus_def httpGet_def)
  have b': "pollForText get stringify jobId (log, w)
          = (Inl JobNotFound, (log @ [Get JobV1 jobId, Get JobLegacy jobId], w''))"
    if "get JobV1 jobId w = (Fail c, w')" "get JobLegacy jobId w' = (Fail (Some 404), w'')"
    using b [OF z that] by (simp add: pollForText_def)
  from a b b' c d e f show ?thesis
    by (intro conjI impI) (auto simp: getStatus_legacy)
qed


theorem poll_fault_handling_witness:
  "pollForText (answering (\<lambda>n e. if e = JobV1 then Fail None else Fail (Some 404)))
      (\<lambda>d. ''{}'') (JStr ''job-1'') ([], 0)
     = (Inl JobNotFound,
        ([Get JobV1 (JStr ''job-1''), Get JobLegacy (JStr ''job-1'')], 2))
   \<and> pollLoop (answering (\<lambda>n e. Fail (Some 500))) (\<lambda>d. ''{}'') (JStr ''job-1'') 0 ([], 0)
     = pollLoop (answering (\<lambda>n e. Fail (Some 500))) (\<lambda>d. ''{}'') (JStr ''job-1'') 1
         ([Get JobV1 (JStr ''job-1''), Get JobLegacy (JStr ''job-1'')], 2)
   \<and> getStatus (answering (\<lambda>n e. if e = JobV1 then Fail (Some 404)
                                   else Resp (JObj [(''status'', JStr ''pending'')])))
        (JStr ''job-1'') ([], 0)
     = (Inr (JObj [(''status'', JStr ''pending'')]),
        ([Get JobV1 (JStr ''job-1''), Get JobLegacy (JStr ''job-1'')], 2))
   \<and> tryEndpoints (answering (\<lambda>n e. Fail (Some 404))) (JStr ''job-1'') [ParsedLegacy] ([], 0)
     = (None, ([Get ParsedLegacy (JStr ''job-1'')], 1))
   \<and> freshStatus (answering (\<lambda>n e. Fail (Some 404))) (JStr ''job-1'')
        (JObj [(''status'', JStr ''success'')]) ([], 0)
     = (JObj [(''status'', JStr ''success'')],
        ([Get JobV1 (JStr ''job-1''), Get JobLegacy (JStr ''job-1'')], 2))
   \<and> pollIteration
        (answering (\<lambda>n e. if n = 0 then Resp (JObj [(''status'', JStr ''success'')])
                           else Fail (Some 404)))
        (\<lambda>d. ''{}'') (JStr ''job-1'') ([], 0)
     = (Stop (JStr ''{}''),
        ([Get JobV1 (JStr ''job-1''), Get ResultV1 (JStr ''job-1''),
          Get DownloadV1 (JStr ''job-1''), Get ResultLegacy (JStr ''job-1''),
          Get DownloadLegacy (JStr ''job-1''), Get ContentLegacy (JStr ''job-1''),
          Get ParsedLegacy (JStr ''job-1''), Get JobV1 (JStr ''job-1''),
          Get JobLegacy (JStr ''job-1'')], 9))"
proof -
  have z: "0 < maxAttempts" by (simp add: maxAttempts_def)
  let ?j = "JStr ''job-1''"
  let ?a = "answering (\<lambda>n e. if e = JobV1 then Fail None else Fail (Some 404))"
  let ?b = "answering (\<lambda>n e. Fail (Some 500))"
  let ?c = "answering (\<lambda>n e. if e = JobV1 then Fail (Some 404)
                                   else Resp (JObj [(''status'', JStr ''pending'')]))"
  let ?n = "answering (\<lambda>n e. Fail (Some 404))"
  let ?f = "answering (\<lambda>n e. if n = 0 then Resp (JObj [(''status'', JStr ''success'')])
                           else Fail (Some 404))"
  have p1: "pollForText ?a (\<lambda>d. ''{}'') ?j ([], 0)
     = (Inl JobNotFound, ([Get JobV1 ?j, Get JobLegacy ?j], 2))"
    using poll_fault_handling [where get = ?a and jobId = ?j and w = 0 and w' = 1 and w'' = 2
        and log = "[]" and stringify = "\<lambda>d. ''{}''" and attempts = 0 and c = None] z
    by (simp add: answering_def)
  have p2: "pollLoop ?b (\<lambda>d. ''{}'') ?j 0 ([], 0)
     = pollLoop ?b (\<lambda>d. ''{}'') ?j 1 ([Get JobV1 ?j, Get JobLegacy ?j], 2)"
    using poll_fault_handling [where get = ?b and jobId = ?j and w = 0 and w' = 1 and w'' = 2
        and log = "[]" and stringify = "\<lambda>d. ''{}''" and attempts = 0 and c = "Some 500"
        and c' = "Some 500"] z
    by (simp add: answering_def)
  have p3: "getStatus ?c ?j ([], 0)
     = (Inr (JObj [(''status'', JStr ''pending'')]), ([Get JobV1 ?j, Get JobLegacy ?j], 2))"
    using poll_fault_handling [where get = ?c and jobId = ?j and w = 0 and w' = 1 and w'' = 2
        and log = "[]" and c = "Some 404" and d = "JObj [(''status'', JStr ''pending'')]"]
    by (simp add: answering_def)
  have p4: "tryEndpoints ?n ?j [ParsedLegacy] ([], 0) = (None, ([Get ParsedLegacy ?j], 1))"
    using poll_fault_handling [where get = ?n and jobId = ?j and w = 0 and w' = 1
        and log = "[]" and c = "Some 404" and ep = ParsedLegacy and eps = "[]"]
    by (simp add: answering_def)
  have p5: "freshStatus ?n ?j (JObj [(''status'', JStr ''success'')]) ([], 0)
     = (JObj [(''status'', JStr ''success'')], ([Get JobV1 ?j, Get JobLegacy ?j], 2))"
    using poll_fault_handling [where get = ?n and jobId = ?j and w = 0 and w' = 1 and w'' = 2
        and log = "[]" and c = "Some 404" and c' = "Some 404"
        and statusData = "JObj [(''status'', JStr ''success'')]"]
    by (simp add: answering_def)
  have p6: "pollIteration ?f (\<lambda>d. ''{}'') ?j ([], 0)
     = (Stop (JStr ''{}''),
        ([Get JobV1 ?j, Get ResultV1 ?j, Get DownloadV1 ?j, Get ResultLegacy ?j,
          Get DownloadLegacy ?j, Get ContentLegacy ?j, Get ParsedLegacy ?j, Get JobV1 ?j,
          Get JobLegacy ?j], 9))"
    by (simp add: pollIteration_def pollBody_def getStatus_def httpGet_def answering_def
        statusClass_def resolveDocument_def hasResult_def isTruthyField_def truthyField_def
        resultEndpoints_def freshStatus_def extractText_def)
  from p1 p2 p3 p4 p5 p6 show ?thesis by blast
qed

text \<open>
  Claim C9 as stated fails: a service whose primary status endpoint answers 404 at every
  poll, and whose legacy endpoint answers 500, is polled \<open>maxAttempts\<close> times and the
  call ends with the time-out error.
\<close>

theorem primary_not_found_swallowed:
  "answering (\<lambda>n e. if e = JobV1 then Fail (Some 404) else Fail (Some 500))
       JobV1 (JStr ''job-1'') 0 = (Fail (Some 404), 1)
   \<and> (\<exists>n. parseDocumentWithLlamaParse sampleUpload
          (answering (\<lambda>n e. if e = JobV1 then Fail (Some 404) else Fail (Some 500)))
          (\<lambda>d. ''{}'') None ([], 0)
        = (Inl TimedOut,
           (Upload # concat (replicate maxAttempts
              [Get JobV1 (JStr ''job-1''), Get JobLegacy (JStr ''job-1'')]), n)))"
proof -
  let ?g = "answering (\<lambda>n e. if e = JobV1 then Fail (Some 404) else Fail (Some 500))"
  let ?j = "JStr ''job-1''"
  have "\<exists>w'. pollIteration ?g (\<lambda>d. ''{}'') ?j (log, w)
          = (Again, (log @ [Get JobV1 ?j, Get JobLegacy ?j], w'))" for log w
    by (simp add: pollIteration_fault
        getStatus_both_fail [where c = "Some 404" and c' = "Some 500"
          and w' = "w + 1" and w'' = "w + 2"] answering_def)
  from pollForText_requests [of ?g "\<lambda>d. ''{}''" ?j "[Get JobV1 ?j, Get JobLegacy ?j]" "[Upload]" 0,
      OF this]
  obtain n where "pollForText ?g (\<lambda>d. ''{}'') ?j ([Upload], 0)
      = (Inl TimedOut, ([Upload] @ concat (replicate maxAttempts
              [Get JobV1 ?j, Get JobLegacy ?j]), n))" by blast
  moreover have "parseDocumentWithLlamaParse sampleUpload ?g (\<lambda>d. ''{}'') None ([], 0)
      = pollForText ?g (\<lambda>d. ''{}'') ?j ([] @ [Upload], 0)"
    by (rule parse_polls [where d = "JObj [(''id'', JStr ''job-1'')]"])
       (simp_all add: sampleUpload_def jobIdOf_def truthyField_def)
  ultimately show ?thesis by (simp add: answering_def)
qed

section \<open>A job that reports an error\<close>

text \<open>
  Claim C2.  The exception raised on line 344 for an error status is raised inside the
  \<^verbatim>\<open>try\<close> block of the iteration, so the handler of lines 350-356 receives it; it
  has no \<^verbatim>\<open>response\<close>, and the loop goes on.  Here the first poll reports
  \<^verbatim>\<open>error\<close> with a message and the second reports success: the call polls again and
  returns the text.
\<close>

theorem error_status_swallowed:
  "parseDocumentWithLlamaParse sampleUpload
     (answering (\<lambda>n e. if n = 0
         then Resp (JObj [(''status'', JStr ''error''), (''error'', JStr ''bad file'')])
         else Resp (JObj [(''status'', JStr ''SUCCESS''), (''markdown'', JStr ''# Report'')])))
     (\<lambda>d. ''{}'') None ([], 0)
   = (Inr (JStr ''# Report''),
      ([Upload, Get JobV1 (JStr ''job-1''), Get JobV1 (JStr ''job-1'')], 2))"
proof -
  let ?g = "answering (\<lambda>n e. if n = 0
         then Resp (JObj [(''status'', JStr ''error''), (''error'', JStr ''bad file'')])
         else Resp (JObj [(''status'', JStr ''SUCCESS''), (''markdown'', JStr ''# Report'')]))"
  let ?j = "JStr ''job-1''"
  have p: "parseDocumentWithLlamaParse sampleUpload ?g (\<lambda>d. ''{}'') None ([], 0)
      = pollForText ?g (\<lambda>d. ''{}'') ?j ([] @ [Upload], 0)"
    by (rule parse_polls [where d = "JObj [(''id'', JStr ''job-1'')]"])
       (simp_all add: sampleUpload_def jobIdOf_def truthyField_def)
  have b1: "pollBody ?g (\<lambda>d. ''{}'') ?j ([Upload], 0)
      = (Inl (ParsingFailed (JStr ''bad file'')), ([Upload, Get JobV1 ?j], 1))"
    by (simp add: pollBody_def getStatus_def httpGet_def answering_def statusClass_def
        errorMsg_def truthyField_def)
  have i1: "pollIteration ?g (\<lambda>d. ''{}'') ?j ([Upload], 0)
      = (Again, ([Upload, Get JobV1 ?j], 1))"
    by (simp add: pollIteration_def b1 pollCatch_def)
  have i2: "pollIteration ?g (\<lambda>d. ''{}'') ?j ([Upload, Get JobV1 ?j], 1)
      = (Stop (JStr ''# Report''), ([Upload, Get JobV1 ?j, Get JobV1 ?j], 2))"
    by (simp add: pollIteration_def pollBody_def getStatus_def httpGet_def answering_def
        statusClass_def resolveDocument_def hasResult_def isTruthyField_def truthyField_def
        extractText_def)
  have "pollLoop ?g (\<lambda>d. ''{}'') ?j 0 ([Upload], 0)
      = (Inr (JStr ''# Report'', 1), ([Upload, Get JobV1 ?j, Get JobV1 ?j], 2))"
    using pollLoop_Again [OF _ i1, of 0] pollLoop_Stop [OF _ i2, of 1]
    by (simp add: maxAttempts_def)
  with p show ?thesis by (simp add: pollForText_def afterLoop_def maxAttempts_def)
qed


section \<open>Empty text\<close>








section \<open>The model fallback chain\<close>

lemma tryModels_skip:
  "\<forall>x \<in> set pre. \<exists>msg. sdk x p = Inl msg \<and> notFound msg
   \<Longrightarrow> tryModels sdk p (pre @ others) calls
       = tryModels sdk p others (calls @ map (\<lambda>x. SdkCall x p) pre)"
  by (induction pre arbitrary: calls) (auto simp: generateContent_def)

lemma tryModels_first:
  assumes "\<forall>x \<in> set pre. \<exists>msg. sdk x p = Inl msg \<and> notFound msg"
  shows "sdk m p = Inr t \<Longrightarrow> tryModels sdk p (pre @ m # post) calls
           = (Inr (Some t), calls @ map (\<lambda>x. SdkCall x p) (pre @ [m]))"
    and "sdk m p = Inl msg \<Longrightarrow> \<not> notFound msg \<Longrightarrow> tryModels sdk p (pre @ m # post) calls
           = (Inl (ModelError msg), calls @ map (\<lambda>x. SdkCall x p) (pre @ [m]))"
  by (simp_all add: tryModels_skip [where sdk = sdk and p = p, OF assms] generateContent_def)

lemma tryModels_exhausted:
  assumes "\<forall>x \<in> set ms. \<exists>msg. sdk x p = Inl msg \<and> notFound msg"
  shows "tryModels sdk p ms calls = (Inr None, calls @ map (\<lambda>x. SdkCall x p) ms)"
  using tryModels_skip [where sdk = sdk and p = p, OF assms, of "[]" calls] by simp

text \<open>
  Claim C5, as amended.  Let the candidates before \<open>m\<close> in the list all fail with a
  message of the not-found class.  If \<open>m\<close> answers with a text that is not empty, that
  text is returned; if \<open>m\<close> fails with a message of any other class, the call fails with
  that exception.  In both cases the calls made are those of the candidates up to \<open>m\<close>,
  in order: no later candidate is called and the REST endpoint is not called.  If \<open>m\<close>
  answers with the empty text, no later candidate is called either, and the call goes on
  with the REST fallback.
\<close>

theorem summarize_chain:
  assumes "modelNames = pre @ m # post"
    and "\<forall>x \<in> set pre. \<exists>msg. sdk x (mkPrompt doc targetLanguage) = Inl msg \<and> notFound msg"
  shows "(sdk m (mkPrompt doc targetLanguage) = Inr t \<and> t \<noteq> [] \<longrightarrow>
            summarizeWithGemini sdk rest doc targetLanguage calls
              = (Inr (JStr t),
                 calls @ map (\<lambda>x. SdkCall x (mkPrompt doc targetLanguage)) (pre @ [m])))
       \<and> (sdk m (mkPrompt doc targetLanguage) = Inl msg \<and> \<not> notFound msg \<longrightarrow>
            summarizeWithGemini sdk rest doc targetLanguage calls
              = (Inl (ModelError msg),
                 calls @ map (\<lambda>x. SdkCall x (mkPrompt doc targetLanguage)) (pre @ [m])))
       \<and> (sdk m (mkPrompt doc targetLanguage) = Inr [] \<longrightarrow>
            summarizeWithGemini sdk rest doc targetLanguage calls
              = restFallback rest (mkPrompt doc targetLanguage)
                  (calls @ map (\<lambda>x. SdkCall x (mkPrompt doc targetLanguage)) (pre @ [m])))"
  unfolding summarizeWithGemini_def assms(1)
  using tryModels_first [where sdk = sdk and p = "mkPrompt doc targetLanguage",
      OF assms(2), of m _ post calls]
  by auto

theorem summarize_chain_witness:
  "summarizeWithGemini
     (\<lambda>m p. if m = ''gemini-1.5-flash'' then Inl ''[404 Not Found] model is not found''
             else Inr ''Summary B'')
     (\<lambda>p. Fail None) ''doc'' ''English'' []
   = (Inr (JStr ''Summary B''),
      [SdkCall ''gemini-1.5-flash'' (mkPrompt ''doc'' ''English''),
       SdkCall ''gemini-1.5-pro'' (mkPrompt ''doc'' ''English'')])
   \<and> summarizeWithGemini (\<lambda>m p. Inl ''429 quota exceeded'')
        (\<lambda>p. Fail None) ''doc'' ''English'' []
   = (Inl (ModelError ''429 quota exceeded''),
      [SdkCall ''gemini-1.5-flash'' (mkPrompt ''doc'' ''English'')])
   \<and> summarizeWithGemini (\<lambda>m p. Inr []) (\<lambda>p. Fail None) ''doc'' ''English'' []
   = (Inl (AxiosError None),
      [SdkCall ''gemini-1.5-flash'' (mkPrompt ''doc'' ''English''),
       RestCall ''gemini-pro'' (mkPrompt ''doc'' ''English'')])"
proof -
  let ?a = "\<lambda>m p::string. if m = ''gemini-1.5-flash''
      then Inl ''[404 Not Found] model is not found'' else (Inr ''Summary B'' :: string + string)"
  have m1: "modelNames = [''gemini-1.5-flash''] @ ''gemini-1.5-pro'' # [''gemini-pro'']"
    by (simp add: modelNames_def)
  have m0: "modelNames = [] @ ''gemini-1.5-flash'' # [''gemini-1.5-pro'', ''gemini-pro'']"
    by (simp add: modelNames_def)
  have nf: "notFound ''[404 Not Found] model is not found''" by (simp add: notFound_def)
  have q: "\<not> notFound ''429 quota exceeded''" by (simp add: notFound_def)
  have h1: "\<forall>x \<in> set [''gemini-1.5-flash'']. \<exists>msg. ?a x (mkPrompt ''doc'' ''English'') = Inl msg
      \<and> notFound msg"
    using nf by simp
  from summarize_chain [where sdk = ?a and doc = "''doc''" and targetLanguage = "''English''"
      and t = "''Summary B''" and rest = "\<lambda>p. Fail None" and calls = "[]", OF m1 h1]
    summarize_chain [where sdk = "\<lambda>m p. Inl ''429 quota exceeded''" and doc = "''doc''"
      and targetLanguage = "''English''" and rest = "\<lambda>p. Fail None" and calls = "[]"
      and msg = "''429 quota exceeded''", OF m0]
    summarize_chain [where sdk = "\<lambda>m p. Inr []" and doc = "''doc''"
      and targetLanguage = "''English''" and rest = "\<lambda>p. Fail None" and calls = "[]", OF m0] q
  show ?thesis by (simp add: restFallback_def restPost_def)
qed

text \<open>
  Claim C5 as stated fails: the first candidate answers, with the empty text, and the
  call returns the text of the REST fallback.
\<close>

theorem empty_output_not_returned:
  "summarizeWithGemini (\<lambda>m p. Inr [])
     (\<lambda>p. Resp (JObj [(''candidates'', JArr [JObj [(''content'',
              JObj [(''parts'', JArr [JObj [(''text'', JStr ''from REST'')]])])]])]))
     ''doc'' ''English'' []
   = (Inr (JStr ''from REST''),
      [SdkCall ''gemini-1.5-flash'' (mkPrompt ''doc'' ''English''),
       RestCall ''gemini-pro'' (mkPrompt ''doc'' ''English'')])"
  by (simp add: summarizeWithGemini_def modelNames_def generateContent_def restFallback_def
      restPost_def restText_def optField_def optIndex0_def)

text \<open>
  Claim C6.  When every candidate fails with a message of the not-found class, the three
  candidates are called in order and then the REST endpoint of \<^verbatim>\<open>gemini-pro\<close> is called
  once, with the same prompt.  The value at
  \<^verbatim>\<open>candidates[0].content.parts[0].text\<close> of its answer is returned when it is truthy;
  the call fails when the request is rejected and when there is no truthy value there.
\<close>

theorem summarize_rest_fallback:
  assumes "\<forall>x \<in> set modelNames. \<exists>msg. sdk x (mkPrompt doc targetLanguage) = Inl msg
      \<and> notFound msg"
  shows "summarizeWithGemini sdk rest doc targetLanguage calls
     = ((case rest (mkPrompt doc targetLanguage) of
           Fail c \<Rightarrow> Inl (AxiosError c)
         | Resp d \<Rightarrow>
             (case restText d of
                None \<Rightarrow> Inl GeminiNoResponse
              | Some v \<Rightarrow> if truthy v then Inr v else Inl GeminiNoResponse)),
        calls @ map (\<lambda>x. SdkCall x (mkPrompt doc targetLanguage)) modelNames
          @ [RestCall ''gemini-pro'' (mkPrompt doc targetLanguage)])"
  unfolding summarizeWithGemini_def
    tryModels_exhausted [where sdk = sdk and p = "mkPrompt doc targetLanguage", OF assms]
  by (simp add: restFallback_def restPost_def split: http.splits option.splits)

theorem summarize_rest_fallback_witness:
  "summarizeWithGemini (\<lambda>m p. Inl ''models/x is not found'')
     (\<lambda>p. Resp (JObj [(''candidates'', JArr [JObj [(''content'',
              JObj [(''parts'', JArr [JObj [(''text'', JStr ''from REST'')]])])]])]))
     ''doc'' ''English'' []
   = (Inr (JStr ''from REST''),
      [SdkCall ''gemini-1.5-flash'' (mkPrompt ''doc'' ''English''),
       SdkCall ''gemini-1.5-pro'' (mkPrompt ''doc'' ''English''),
       SdkCall ''gemini-pro'' (mkPrompt ''doc'' ''English''),
       RestCall ''gemini-pro'' (mkPrompt ''doc'' ''English'')])
   \<and> fst (summarizeWithGemini (\<lambda>m p. Inl ''models/x is not found'')
       (\<lambda>p. Fail (Some 503)) ''doc'' ''English'' []) = Inl (AxiosError (Some 503))
   \<and> fst (summarizeWithGemini (\<lambda>m p. Inl ''models/x is not found'')
       (\<lambda>p. Resp (JObj [(''candidates'', JArr [])])) ''doc'' ''English'' [])
     = Inl GeminiNoResponse"
proof -
  have nf: "notFound ''models/x is not found''" by (simp add: notFound_def)
  then have h: "\<forall>x \<in> set modelNames.
      \<exists>msg. (\<lambda>m p. Inl ''models/x is not found'') x (mkPrompt ''doc'' ''English'') = Inl msg
        \<and> notFound msg"
    by simp
  from summarize_rest_fallback [where sdk = "\<lambda>m p. Inl ''models/x is not found''"
      and doc = "''doc''" and targetLanguage = "''English''" and calls = "[]", OF h]
  show ?thesis
    by (simp add: modelNames_def restText_def optField_def optIndex0_def)
qed


section \<open>Status classification\<close>

text \<open>
  Claim C4 as stated fails: \<^verbatim>\<open>Success\<close> is a casing variant of \<^verbatim>\<open>success\<close> and is
  classified as unknown.
\<close>

theorem statusClass_mixed_case:
  "specStatus ''Success'' = StSuccess \<and> statusClass (Some (JStr ''Success'')) = StUnknown"
  by (simp add: specStatus_def toLowerChar_def statusClass_def)

lemma pollIteration_transient:
  assumes "getStatus get jobId st = (Inr statusData, st1)"
    and "statusClass (field statusData ''status'') = StPending
       \<or> statusClass (field statusData ''status'') = StUnknown"
  shows "pollIteration get stringify jobId st = (Again, st1)"
  using assms by (auto simp: pollIteration_def pollBody_def pollCatch_def)

text \<open>
  Claim C4, as amended.  The status is compared with six spellings: \<^verbatim>\<open>success\<close> and
  \<^verbatim>\<open>SUCCESS\<close> are success, \<^verbatim>\<open>error\<close> and \<^verbatim>\<open>ERROR\<close> are error, \<^verbatim>\<open>pending\<close> and
  \<^verbatim>\<open>PENDING\<close> are pending; on these the classification is the case-insensitive one.
  Anything else, a mixed-case spelling included, is unknown.  An iteration whose status is
  pending or unknown raises nothing, and the loop goes on with the next attempt.
\<close>

theorem status_classes:
  "(statusClass status = StSuccess
      \<longleftrightarrow> status = Some (JStr ''success'') \<or> status = Some (JStr ''SUCCESS''))
   \<and> (statusClass status = StError
      \<longleftrightarrow> status = Some (JStr ''error'') \<or> status = Some (JStr ''ERROR''))
   \<and> (statusClass status = StPending
      \<longleftrightarrow> status = Some (JStr ''pending'') \<or> status = Some (JStr ''PENDING''))
   \<and> (\<forall>s \<in> set [''success'', ''SUCCESS'', ''error'', ''ERROR'', ''pending'', ''PENDING''].
         statusClass (Some (JStr s)) = specStatus s)
   \<and> (getStatus get jobId st = (Inr statusData, st1)
        \<and> (statusClass (field statusData ''status'') = StPending
           \<or> statusClass (field statusData ''status'') = StUnknown)
      \<longrightarrow> pollIteration get stringify jobId st = (Again, st1)
        \<and> (attempts < maxAttempts \<longrightarrow>
             pollLoop get stringify jobId attempts st
               = pollLoop get stringify jobId (attempts + 1) st1))"
proof -
  have "statusClass (Some (JStr s)) = specStatus s"
    if "s \<in> set [''success'', ''SUCCESS'', ''error'', ''ERROR'', ''pending'', ''PENDING'']" for s
    using that by (auto simp: statusClass_def specStatus_def toLowerChar_def)
  moreover have "statusClass status = StSuccess
      \<longleftrightarrow> status = Some (JStr ''success'') \<or> status = Some (JStr ''SUCCESS'')"
    "statusClass status = StError
      \<longleftrightarrow> status = Some (JStr ''error'') \<or> status = Some (JStr ''ERROR'')"
    "statusClass status = StPending
      \<longleftrightarrow> status = Some (JStr ''pending'') \<or> status = Some (JStr ''PENDING'')"
    by (simp_all add: statusClass_def)
  ultimately show ?thesis
    by (auto simp: pollIteration_transient pollLoop_Again simp del: set_simps)
qed

theorem status_classes_witness:
  "statusClass (Some (JStr ''PENDING'')) = StPending
   \<and> statusClass (Some (JStr ''ERROR'')) = specStatus ''ERROR''
   \<and> pollIteration (answering (\<lambda>n e. Resp (JObj [(''status'', JStr ''Success'')])))
        (\<lambda>d. ''{}'') (JStr ''job-1'') ([Upload], 0)
      = (Again, ([Upload, Get JobV1 (JStr ''job-1'')], 1))
   \<and> pollLoop (answering (\<lambda>n e. Resp (JObj [(''status'', JStr ''Success'')])))
        (\<lambda>d. ''{}'') (JStr ''job-1'') 0 ([Upload], 0)
      = pollLoop (answering (\<lambda>n e. Resp (JObj [(''status'', JStr ''Success'')])))
        (\<lambda>d. ''{}'') (JStr ''job-1'') 1 ([Upload, Get JobV1 (JStr ''job-1'')], 1)"
proof -
  let ?g = "answering (\<lambda>n e. Resp (JObj [(''status'', JStr ''Success'')]))"
  let ?j = "JStr ''job-1''"
  have gs: "getStatus ?g ?j ([Upload], 0)
      = (Inr (JObj [(''status'', JStr ''Success'')]), ([Upload, Get JobV1 ?j], 1))"
    by (simp add: getStatus_def httpGet_def answering_def)
  have u: "statusClass (field (JObj [(''status'', JStr ''Success'')]) ''status'') = StUnknown"
    by (simp add: statusClass_def)
  from status_classes [where status = "Some (JStr ''PENDING'')" and get = ?g and jobId = ?j
      and st = "([Upload], 0)" and statusData = "JObj [(''status'', JStr ''Success'')]"
      and ?st1.0 = "([Upload, Get JobV1 ?j], 1)" and stringify = "\<lambda>d. ''{}''"
      and attempts = 0] gs u
  show ?thesis by (simp add: maxAttempts_def)
qed

section \<open>The precedence list\<close>

text \<open>
  Claim C1.  For the payload \<^verbatim>\<open>{data: {content: 'abc'}}\<close> the precedence list gives
  \<^verbatim>\<open>'abc'\<close>, and the code extracts the empty string: lines 300-306 look for
  \<^verbatim>\<open>markdown\<close> and \<^verbatim>\<open>text\<close> inside \<^verbatim>\<open>data\<close> and not for \<^verbatim>\<open>content\<close>, and lines
  308-314 do the same for \<^verbatim>\<open>document\<close>, while lines 290-298 look for all three inside
  \<^verbatim>\<open>result\<close>.
\<close>

theorem nested_content_missed:
  "specResolve (JObj [(''data'', JObj [(''content'', JStr ''abc'')])]) = Some ''abc''
   \<and> extractText stringify (JObj [(''data'', JObj [(''content'', JStr ''abc'')])])
       = Inr (JStr [])
   \<and> extractText stringify (JObj [(''document'', JObj [(''content'', JStr ''abc'')])])
       = Inr (JStr [])
   \<and> extractText stringify (JObj [(''result'', JObj [(''content'', JStr ''abc'')])])
       = Inr (JStr ''abc'')"
  by (simp add: specResolve_def specNested_def specInner_def extractText_def truthyField_def
      fromData_def fromResult_def)

text \<open>
  Everywhere else the extraction returns the string value of the matching field: this
  holds for every payload in which \<^verbatim>\<open>data\<close> and \<^verbatim>\<open>document\<close>, when they are truthy
  and not strings, have a truthy \<^verbatim>\<open>markdown\<close> or \<^verbatim>\<open>text\<close>.
\<close>

lemma stringOf_Some: "stringOf v = Some s \<longleftrightarrow> v = JStr s"
  by (cases v) auto

lemma fromResult_spec: "specNested r = Some s \<Longrightarrow> fromResult r = JStr s"
  by (auto simp: specNested_def specInner_def fromResult_def stringOf_Some
      split: option.splits if_splits)

lemma fromData_spec:
  "specNested r = Some s
   \<Longrightarrow> isString r \<or> isTruthyField r ''markdown'' \<or> isTruthyField r ''text''
   \<Longrightarrow> fromData r = JStr s"
  by (auto simp: specNested_def specInner_def fromData_def stringOf_Some isTruthyField_def
      split: option.splits if_splits)

lemma extractText_precedence:
  assumes "documentData \<noteq> JNull" and "specResolve documentData = Some s"
    and "\<And>r. truthyField documentData ''data'' = Some r \<or> truthyField documentData ''document'' = Some r
           \<Longrightarrow> isString r \<or> isTruthyField r ''markdown'' \<or> isTruthyField r ''text''"
  shows "extractText stringify documentData = Inr (JStr s)"
  using assms
  by (auto simp: extractText_def specResolve_def stringOf_Some fromResult_spec fromData_spec
      split: option.splits)

section \<open>Unstructured extraction in the loop\<close>

lemma pollIteration_extracted:
  assumes "getStatus get jobId st = (Inr statusData, st1)"
    and "statusClass (field statusData ''status'') = StSuccess"
    and "resolveDocument get jobId statusData st1 = (documentData, st2)"
    and "extractText stringify documentData = Inr t" and "truthy t"
  shows "pollIteration get stringify jobId st = (Stop t, st2)"
proof -
  from assms(2) have "statusData \<noteq> JNull" by (auto simp: statusClass_def)
  with assms show ?thesis by (simp add: pollIteration_def pollBody_def)
qed

lemma pollForText_first:
  assumes "pollIteration get stringify jobId st = (Stop t, st2)"
  shows "pollForText get stringify jobId st = (Inr t, st2)"
proof -
  have "0 < maxAttempts" by (simp add: maxAttempts_def)
  then have "pollLoop get stringify jobId 0 st = (Inr (t, 0), st2)"
    using assms by (rule pollLoop_Stop)
  moreover have "truthy t" using assms by (rule pollIteration_Stop_truthy)
  ultimately show ?thesis by (simp add: pollForText_def afterLoop_def)
qed

text \<open>
  Claim C3, as amended.  For a payload other than \<^verbatim>\<open>null\<close> that is not itself a string
  and has no truthy field of the precedence list, the extraction returns the first string
  longer than 100 characters that a depth-first search of the payload meets, in the
  enumeration order of the properties; when there is none it returns the serialisation of
  the whole payload.  The result is truthy as soon as the serialisation is not empty (that
  of \<^verbatim>\<open>JSON.stringify\<close> never is).  When such a payload is the document of an iteration
  that saw a success status, the iteration leaves the loop with that result, and the call
  returns it.  The witness has a string of 150 characters at depth 2, and a call that
  returns the serialisation after the result endpoints were all rejected.
\<close>

theorem extractText_unstructured:
  assumes "documentData \<noteq> JNull" and "\<not> isString documentData"
    and "\<forall>k \<in> set precedenceFields. truthyField documentData k = None"
  shows "extractText stringify documentData =
           Inr (case List.find (\<lambda>s. 100 < length s) (allStrings documentData) of
                  Some s \<Rightarrow> JStr s
                | None \<Rightarrow> JStr (stringify documentData))
         \<and> (stringify documentData \<noteq> [] \<longrightarrow>
              (\<exists>t. extractText stringify documentData = Inr t \<and> truthy t))
         \<and> (stringify documentData \<noteq> []
              \<and> getStatus get jobId st = (Inr statusData, st1)
              \<and> statusClass (field statusData ''status'') = StSuccess
              \<and> resolveDocument get jobId statusData st1 = (documentData, st2) \<longrightarrow>
              (\<exists>t. extractText stringify documentData = Inr t
                 \<and> pollIteration get stringify jobId st = (Stop t, st2)
                 \<and> (attempts < maxAttempts \<longrightarrow>
                      pollLoop get stringify jobId attempts st = (Inr (t, attempts), st2))
                 \<and> pollForText get stringify jobId st = (Inr t, st2)
                 \<and> ((textContent = None \<or> textContent = Some []) \<and> post w = (Resp d, w1)
                      \<and> jobIdOf d = Some jobId \<and> truthy jobId \<and> st = (log @ [Upload], w1) \<longrightarrow>
                      parseDocumentWithLlamaParse post get stringify textContent (log, w)
                        = (Inr t, st2))))"
proof -
  let ?t = "case List.find (\<lambda>s. 100 < length s) (allStrings documentData) of
                  Some s \<Rightarrow> JStr s
                | None \<Rightarrow> JStr (stringify documentData)"
  have e: "extractText stringify documentData = Inr ?t"
    using assms by (rule extractText_fallback)
  have tr: "truthy ?t" if "stringify documentData \<noteq> []"
  proof (cases "List.find (\<lambda>s. 100 < length s) (allStrings documentData)")
    case None
    with that show ?thesis by simp
  next
    case (Some s)
    then have "100 < length s" by (auto simp: find_Some_iff)
    with Some show ?thesis by auto
  qed
  have it: "pollIteration get stringify jobId st = (Stop ?t, st2)
      \<and> (attempts < maxAttempts \<longrightarrow>
            pollLoop get stringify jobId attempts st = (Inr (?t, attempts), st2))
      \<and> pollForText get stringify jobId st = (Inr ?t, st2)
      \<and> ((textContent = None \<or> textContent = Some []) \<and> post w = (Resp d, w1)
            \<and> jobIdOf d = Some jobId \<and> truthy jobId \<and> st = (log @ [Upload], w1) \<longrightarrow>
            parseDocumentWithLlamaParse post get stringify textContent (log, w) = (Inr ?t, st2))"
    if ne: "stringify documentData \<noteq> []"
      and gs: "getStatus get jobId st = (Inr statusData, st1)"
      and sc: "statusClass (field statusData ''status'') = StSuccess"
      and rd: "resolveDocument get jobId statusData st1 = (documentData, st2)"
  proof -
    have s: "pollIteration get stringify jobId st = (Stop ?t, st2)"
      using gs sc rd e tr [OF ne] by (rule pollIteration_extracted)
    then have f: "pollForText get stringify jobId st = (Inr ?t, st2)"
      by (rule pollForText_first)
    have "parseDocumentWithLlamaParse post get stringify textContent (log, w) = (Inr ?t, st2)"
      if "textContent = None \<or> textContent = Some []" "post w = (Resp d, w1)"
        "jobIdOf d = Some jobId" "truthy jobId" "st = (log @ [Upload], w1)"
    proof -
      have "parseDocumentWithLlamaParse post get stringify textContent (log, w)
           = pollForText get stringify jobId (log @ [Upload], w1)"
        using that(1-4) by (rule parse_polls)
      with f that(5) show ?thesis by simp
    qed
    with s f show ?thesis by (auto simp: pollLoop_Stop)
  qed
  from e tr it show ?thesis by blast
qed


theorem extractText_unstructured_witness:
  "extractText (\<lambda>d. ''{}'')
     (JObj [(''status'', JStr ''SUCCESS''),
            (''job'', JObj [(''pages'', JStr (replicate 150 (CHR ''a'')))])])
   = Inr (JStr (replicate 150 (CHR ''a'')))
   \<and> extractText (\<lambda>d. ''{}'') (JObj [(''status'', JStr ''SUCCESS'')]) = Inr (JStr ''{}'')
   \<and> parseDocumentWithLlamaParse sampleUpload
        (answering (\<lambda>n e. if e = JobV1 then Resp (JObj [(''status'', JStr ''SUCCESS'')])
                           else Fail (Some 404)))
        (\<lambda>d. ''{}'') None ([], 0)
     = (Inr (JStr ''{}''),
        ([Upload, Get JobV1 (JStr ''job-1''), Get ResultV1 (JStr ''job-1''),
          Get DownloadV1 (JStr ''job-1''), Get ResultLegacy (JStr ''job-1''),
          Get DownloadLegacy (JStr ''job-1''), Get ContentLegacy (JStr ''job-1''),
          Get ParsedLegacy (JStr ''job-1''), Get JobV1 (JStr ''job-1'')], 8))"
proof -
  let ?d = "JObj [(''status'', JStr ''SUCCESS''),
            (''job'', JObj [(''pages'', JStr (replicate 150 (CHR ''a'')))])]"
  let ?e = "JObj [(''status'', JStr ''SUCCESS'')]"
  let ?g = "answering (\<lambda>n e. if e = JobV1 then Resp ?e else Fail (Some 404))"
  let ?j = "JStr ''job-1''"
  let ?st1 = "([Upload, Get JobV1 ?j], 1::nat)"
  let ?st2 = "([Upload, Get JobV1 ?j, Get ResultV1 ?j, Get DownloadV1 ?j, Get ResultLegacy ?j,
          Get DownloadLegacy ?j, Get ContentLegacy ?j, Get ParsedLegacy ?j, Get JobV1 ?j],
          8::nat)"
  have h: "\<forall>k \<in> set precedenceFields. truthyField ?d k = None"
    by (simp add: precedenceFields_def truthyField_def)
  have h': "\<forall>k \<in> set precedenceFields. truthyField ?e k = None"
    by (simp add: precedenceFields_def truthyField_def)
  have gs: "getStatus ?g ?j ([] @ [Upload], 0) = (Inr ?e, ?st1)"
    by (simp add: getStatus_def httpGet_def answering_def)
  have sc: "statusClass (field ?e ''status'') = StSuccess" by (simp add: statusClass_def)
  have rd: "resolveDocument ?g ?j ?e ?st1 = (?e, ?st2)"
    by (simp add: resolveDocument_def hasResult_def isTruthyField_def truthyField_def
        resultEndpoints_def httpGet_def answering_def freshStatus_def)
  have u: "sampleUpload 0 = (Resp (JObj [(''id'', JStr ''job-1'')]), 0)"
    by (simp add: sampleUpload_def)
  have j: "jobIdOf (JObj [(''id'', JStr ''job-1'')]) = Some ?j"
    by (simp add: jobIdOf_def truthyField_def)
  have nn: "?e \<noteq> JNull" and ns: "\<not> isString ?e" by simp_all
  from extractText_unstructured [of ?d "\<lambda>d. ''{}''", OF _ _ h, THEN conjunct1]
  have a: "extractText (\<lambda>d. ''{}'') ?d = Inr (JStr (replicate 150 (CHR ''a'')))"
    by simp
  from extractText_unstructured [where documentData = ?e and stringify = "\<lambda>d. ''{}''"
      and get = ?g and jobId = ?j and st = "([] @ [Upload], 0)" and statusData = ?e
      and ?st1.0 = ?st1 and ?st2.0 = ?st2 and textContent = None and post = sampleUpload
      and w = 0 and d = "JObj [(''id'', JStr ''job-1'')]" and ?w1.0 = 0 and log = "[]"
      and attempts = 0, OF nn ns h'] gs sc rd u j
  have b: "extractText (\<lambda>d. ''{}'') ?e = Inr (JStr ''{}'')
    \<and> parseDocumentWithLlamaParse sampleUpload ?g (\<lambda>d. ''{}'') None ([], 0)
        = (Inr (JStr ''{}''), ?st2)"
    by auto
  from a b show ?thesis by simp
qed

text \<open>
  Claim C3 as stated fails for the payload \<^verbatim>\<open>null\<close>, which has no field at all: line 276
  raises, nothing is serialised, and the iteration goes on to the next attempt.  Here the
  status has no recognized field, the six result endpoints are rejected, and the fresh
  status check of line 242 is answered with \<^verbatim>\<open>null\<close>.
\<close>

theorem null_payload_raises:
  "map (truthyField JNull) precedenceFields = [None, None, None, None, None, None, None]
   \<and> \<not> isString JNull
   \<and> extractText (\<lambda>d. ''null'') JNull = Inl TypeError
   \<and> pollIteration
        (answering (\<lambda>n e. if n = 0 then Resp (JObj [(''status'', JStr ''success'')])
                           else if n < 7 then Fail (Some 404) else Resp JNull))
        (\<lambda>d. ''null'') (JStr ''job-1'') ([Upload], 0)
     = (Again,
        ([Upload, Get JobV1 (JStr ''job-1''), Get ResultV1 (JStr ''job-1''),
          Get DownloadV1 (JStr ''job-1''), Get ResultLegacy (JStr ''job-1''),
          Get DownloadLegacy (JStr ''job-1''), Get ContentLegacy (JStr ''job-1''),
          Get ParsedLegacy (JStr ''job-1''), Get JobV1 (JStr ''job-1'')], 8))"
  by (simp add: precedenceFields_def truthyField_def extractText_def pollIteration_def
      pollBody_def getStatus_def httpGet_def answering_def statusClass_def resolveDocument_def
      hasResult_def isTruthyField_def resultEndpoints_def freshStatus_def pollCatch_def)

end
